theory Spec2Isabelle
  imports Main "HOL-Library.Word" "HOL-Library.Signed_Division"
begin

unbundle bit_operations_syntax

section \<open>The GPS-disciplined oscillator firmware (GPSDO_v3.c)\<close>

text \<open>
  The firmware runs on an ATtiny841 and is compiled with avr-gcc against avr-libc:
  \<^verbatim>\<open>char\<close> and \<^verbatim>\<open>unsigned char\<close> have 8 bits, \<^verbatim>\<open>int\<close> and
  \<^verbatim>\<open>unsigned int\<close> 16 bits, \<^verbatim>\<open>long\<close> and \<^verbatim>\<open>unsigned long\<close> 32 bits, and
  plain \<^verbatim>\<open>char\<close> is signed. Every C integer is a word of its width; \<open>sint\<close> reads
  a signed one. Arithmetic wraps around (two's complement), a conversion to a narrower
  type keeps the low bits, and \<^verbatim>\<open>/\<close> truncates towards zero.
\<close>

type_synonym u8 = "8 word"
type_synonym u16 = "16 word"
type_synonym u32 = "32 word"

subsection \<open>C arithmetic\<close>

text \<open>\<^verbatim>\<open>a / b\<close> on two \<^verbatim>\<open>long\<close>s and on two \<^verbatim>\<open>int\<close>s: the quotient truncated
  towards zero (\<open>sdiv\<close> on \<open>int\<close>).\<close>

definition long_div :: "u32 \<Rightarrow> u32 \<Rightarrow> u32" where
  "long_div a b = word_of_int (sint a sdiv sint b)"

definition int_div :: "u16 \<Rightarrow> u16 \<Rightarrow> u16" where
  "int_div a b = word_of_int (sint a sdiv sint b)"

text \<open>avr-libc's \<^verbatim>\<open>abs\<close> is \<^verbatim>\<open>__builtin_abs\<close>, of type \<^verbatim>\<open>int abs(int)\<close>: a
  \<^verbatim>\<open>long\<close> argument is first converted to the 16-bit \<^verbatim>\<open>int\<close>. \<open>abs_int\<close> is the
  function on \<^verbatim>\<open>int\<close>; the callers below write the conversion.\<close>

definition abs_int :: "u16 \<Rightarrow> u16" where
  "abs_int i = (if sint i < 0 then - i else i)"

subsection \<open>Compile-time constants\<close>

definition K_P :: u32 where "K_P = 31400"
definition K_I :: u32 where "K_I = 13"
definition DAC_SIGN :: u32 where "DAC_SIGN = - 1"
definition PHASE_ADC_MIDPOINT :: u16 where "PHASE_ADC_MIDPOINT = 512"
definition EE_UPDATE_OFFSET :: int where "EE_UPDATE_OFFSET = 75"
definition NOMINAL_CLOCK :: u32 where "NOMINAL_CLOCK = 10000000"
definition SAMPLE_COUNT :: nat where "SAMPLE_COUNT = 10"
definition SAMPLE_SECONDS :: nat where "SAMPLE_SECONDS = 25"
definition MAX_DELTA :: int where "MAX_DELTA = 2500"

subsection \<open>The state\<close>

text \<open>
  The globals of the program, the \<^verbatim>\<open>static\<close> locals of the capture interrupt
  (\<open>last_timer_val\<close>) and of the main loop (\<open>last_pps_count\<close>, \<open>last_sample_count\<close>),
  and the two devices the program drives: \<open>eeprom_trim\<close> is the EEPROM word at
  \<^verbatim>\<open>EE_TRIM_LOC\<close>, and \<open>dac_log\<close> lists, oldest first, the data words of the frames
  clocked out to the DAC (each entry stands for one frame: eight zero bits, then the
  sixteen data bits, most significant first). The serial buffers, the LEDs and the
  watchdog are left out.
\<close>

record gpsdo =
  last_dac_value :: u16
  phase_error_sum :: u32
  phase_error_count :: u16
  sample_buffer :: "u16 list"
  valid_samples :: u8
  sample_window_pos :: u8
  timer_hibits :: u16
  pps_count :: u32
  sample_count :: u32
  gps_status :: u8
  lock :: u8
  total_error :: u32
  trim_percent :: u32
  last_adc_value :: u16
  erroneous_delta :: u32
  last_timer_val :: u32
  last_pps_count :: u32
  last_sample_count :: u32
  eeprom_trim :: u16
  dac_log :: "u16 list"

subsection \<open>writeDacValue\<close>

definition writeDacValue :: "u16 \<Rightarrow> gpsdo \<Rightarrow> gpsdo" where
  "writeDacValue v s =
     (if v = last_dac_value s then s
      else s\<lparr>last_dac_value := v, dac_log := dac_log s @ [v]\<rparr>)"

subsection \<open>The timer interrupts\<close>

definition TIMER1_OVF_vect :: "gpsdo \<Rightarrow> gpsdo" where
  "TIMER1_OVF_vect s = s\<lparr>timer_hibits := timer_hibits s + 1\<rparr>"

text \<open>What the capture interrupt reads from the hardware: the input capture register,
  the timer overflow flag of \<^verbatim>\<open>TIFR1\<close>, and the result of the ADC conversion it
  starts and waits for.\<close>

record capt_hw =
  ICR1 :: u16
  TOV1 :: bool
  ADC :: u16

text \<open>Lines 230 to 234: the 32-bit tick of the capture.\<close>

definition capture_tick :: "u16 \<Rightarrow> bool \<Rightarrow> u16 \<Rightarrow> u32" where
  "capture_tick captured_lowbits tov stored_hibits =
     (let local_timer_hibits =
            (if tov \<and> captured_lowbits < 0x8000 then stored_hibits + 1 else stored_hibits)
      in push_bit 16 (ucast local_timer_hibits) OR ucast captured_lowbits)"

text \<open>Lines 264 to 273: the accepted delta goes to the skip marker or into the buffer.\<close>

definition store_sample :: "u32 \<Rightarrow> gpsdo \<Rightarrow> gpsdo" where
  "store_sample delta s =
     (if sint (valid_samples s) < 0 then s\<lparr>valid_samples := valid_samples s + 1\<rparr>
      else if sint (valid_samples s) < int SAMPLE_COUNT then
        s\<lparr>sample_buffer := (sample_buffer s)[unat (valid_samples s) := ucast delta],
          valid_samples := valid_samples s + 1\<rparr>
      else
        s\<lparr>valid_samples := word_of_nat SAMPLE_COUNT,
          sample_buffer := take (SAMPLE_COUNT - 1) (drop 1 (sample_buffer s)) @ [ucast delta]\<rparr>)"

definition TIMER1_CAPT_vect :: "capt_hw \<Rightarrow> gpsdo \<Rightarrow> gpsdo" where
  "TIMER1_CAPT_vect hw s0 =
     (let timer_val = capture_tick (ICR1 hw) (TOV1 hw) (timer_hibits s0);
          s1 = s0\<lparr>last_adc_value := ADC hw\<rparr>
      in if gps_status s1 AND 1 = 0 then s1\<lparr>last_timer_val := timer_val\<rparr>
         else
           let s2 = s1\<lparr>pps_count := pps_count s1 + 1,
                      sample_window_pos := sample_window_pos s1 - 1\<rparr>
           in if sample_window_pos s2 > 0 then s2
              else
                let time_span = timer_val - last_timer_val s2;
                    s3 = s2\<lparr>sample_window_pos := word_of_nat SAMPLE_SECONDS,
                            last_timer_val := timer_val\<rparr>;
                    delta = time_span - word_of_nat SAMPLE_SECONDS * NOMINAL_CLOCK
                in if sint (abs_int (ucast delta)) > MAX_DELTA \<and> sint (valid_samples s3) \<ge> 0
                   then s3\<lparr>erroneous_delta := delta\<rparr>
                   else (let s4 = store_sample delta s3
                         in s4\<lparr>sample_count := sample_count s4 + 1\<rparr>))"

subsection \<open>handleGPS\<close>

text \<open>
  Lines 422 to 432 of \<^verbatim>\<open>handleGPS\<close>, which a \<^verbatim>\<open>$GPGSA\<close> sentence with a good
  checksum and enough fields reaches. The argument says whether its fix field is
  \<^verbatim>\<open>'3'\<close>, from which line 407 computes \<^verbatim>\<open>gps_now_valid\<close>; the parsing before that
  changes none of the fields of the state above.
\<close>

definition handleGPS :: "bool \<Rightarrow> gpsdo \<Rightarrow> gpsdo" where
  "handleGPS fix3d s =
     (let gps_now_valid = (if fix3d then 1 else 0) in
      if gps_now_valid = gps_status s AND 1 then s
      else
        let s1 = s\<lparr>gps_status := gps_now_valid\<rparr>
        in if gps_status s1 = 0
           then s1\<lparr>valid_samples := - 1,
                   sample_window_pos := word_of_nat SAMPLE_SECONDS,
                   total_error := 0,
                   lock := 0\<rparr>
           else s1)"

subsection \<open>main: initialisation\<close>

text \<open>The C runtime zeroes every global and static before \<^verbatim>\<open>main\<close> runs. The argument
  is the content of the EEPROM word; no frame has been sent to the DAC yet.\<close>

definition startup :: "u16 \<Rightarrow> gpsdo" where
  "startup ee =
     \<lparr>last_dac_value = 0, phase_error_sum = 0, phase_error_count = 0,
      sample_buffer = replicate SAMPLE_COUNT 0, valid_samples = 0, sample_window_pos = 0,
      timer_hibits = 0, pps_count = 0, sample_count = 0, gps_status = 0, lock = 0,
      total_error = 0, trim_percent = 0, last_adc_value = 0, erroneous_delta = 0,
      last_timer_val = 0, last_pps_count = 0, last_sample_count = 0,
      eeprom_trim = ee, dac_log = []\<rparr>"

text \<open>Lines 472 to 521: the assignments of \<^verbatim>\<open>main\<close> before the loop.\<close>

definition main_init :: "u16 \<Rightarrow> gpsdo" where
  "main_init ee =
     (let s0 = startup ee;
          s1 = s0\<lparr>last_dac_value := 0x8000, phase_error_sum := 0, phase_error_count := 0,
                  timer_hibits := 0, pps_count := 0, sample_count := 0, gps_status := 0,
                  valid_samples := - 1, sample_window_pos := word_of_nat SAMPLE_SECONDS,
                  total_error := 0, last_adc_value := PHASE_ADC_MIDPOINT,
                  erroneous_delta := 0\<rparr>;
          trim_value = (if eeprom_trim s1 = 0xFFFF then 0x8000 else eeprom_trim s1);
          s2 = writeDacValue trim_value s1
      in s2\<lparr>trim_percent := (ucast trim_value - 0x8000) * 100\<rparr>)"

subsection \<open>main: one iteration of the loop\<close>

text \<open>The locals of a window update, which the debug build prints
  (\<^verbatim>\<open>PE=\<close>, \<^verbatim>\<open>CE=\<close>, \<^verbatim>\<open>AV=\<close>, \<^verbatim>\<open>TV=\<close>).\<close>

record window_locals =
  sample_phase_error :: u16
  sample_drift :: u32
  current_error :: u32
  adj_val :: u32
  trim_value :: u16

text \<open>How an iteration ends: at one of the four \<^verbatim>\<open>continue\<close> statements, or at the
  end of the body after a window update.\<close>

datatype loop_result =
    NoPps
  | Erroneous u32
  | SampleIncomplete
  | NoSamples u16 u32
  | Updated window_locals

text \<open>Lines 621 to 632: the sum of the first \<open>valid_samples\<close> entries of the buffer.\<close>

fun sum_samples :: "u16 list \<Rightarrow> u32 \<Rightarrow> u32" where
  "sum_samples [] acc = acc"
| "sum_samples (x # xs) acc = sum_samples xs (acc + scast x)"

text \<open>Lines 651 to 662: the lock grade.\<close>

definition classify_lock :: "u8 \<Rightarrow> u32 \<Rightarrow> u8" where
  "classify_lock vs drift =
     (if sint vs < int SAMPLE_COUNT then 0
      else if sint (abs_int (ucast drift)) < 1250 then
        (if sint (abs_int (ucast drift)) < 125 then
           (if sint (abs_int (ucast drift)) < 25 then 3 else 2)
         else 1)
      else 0)"

text \<open>Lines 614 and 618: the phase error of the window, in thousandths of the
  mid-point.\<close>

definition window_phase_error :: "gpsdo \<Rightarrow> u16" where
  "window_phase_error s =
     (let average_phase_error = long_div (phase_error_sum s) (word_of_nat SAMPLE_SECONDS)
      in ucast (long_div (average_phase_error * 1000) 512))"

text \<open>Lines 614 to 723: the work done once per closed window.\<close>

definition window_update :: "gpsdo \<Rightarrow> loop_result \<times> gpsdo" where
  "window_update s0 =
     (let spe = window_phase_error s0;
          s1 = s0\<lparr>phase_error_sum := 0, phase_error_count := 0\<rparr>;
          total = sum_samples (take (nat (sint (valid_samples s1))) (sample_buffer s1)) 0;
          drift = long_div (total * 10) (word_of_nat SAMPLE_COUNT);
          s2 = s1\<lparr>lock := classify_lock (valid_samples s1) drift\<rparr>
      in if sint (valid_samples s2) \<le> 0 then (NoSamples spe drift, s2)
         else
           let cur = 10 * drift + scast (int_div spe 14);
               s3 = s2\<lparr>total_error := total_error s2 + cur\<rparr>;
               adj = long_div (DAC_SIGN * (cur * K_P + total_error s3 * K_I)) 10000;
               s4 = s3\<lparr>trim_percent := trim_percent s3 - adj\<rparr>;
               tv = (ucast (long_div (trim_percent s4) 100) :: u16) + 0x8000;
               s5 = writeDacValue tv s4;
               s6 = (if sint (abs_int (ucast cur)) < 100
                        \<and> sint (abs_int (eeprom_trim s5 - tv)) > EE_UPDATE_OFFSET
                     then s5\<lparr>eeprom_trim := tv\<rparr> else s5)
           in (Updated \<lparr>sample_phase_error = spe, sample_drift = drift,
                        current_error = cur, adj_val = adj, trim_value = tv\<rparr>, s6))"

text \<open>Lines 536 to 724. The debug build keeps bit 1 of \<open>gps_status\<close> as "this status
  has been logged".\<close>

definition main_loop_body :: "gpsdo \<Rightarrow> loop_result \<times> gpsdo" where
  "main_loop_body s0 =
     (let s1 = s0\<lparr>gps_status := gps_status s0 OR 2\<rparr>
      in if last_pps_count s1 = pps_count s1 then (NoPps, s1)
         else
           let s2 = s1\<lparr>last_pps_count := pps_count s1\<rparr>
           in if erroneous_delta s2 \<noteq> 0
              then (Erroneous (erroneous_delta s2), s2\<lparr>erroneous_delta := 0\<rparr>)
              else
                let current_phase_error = PHASE_ADC_MIDPOINT - last_adc_value s2;
                    s3 = s2\<lparr>phase_error_sum := phase_error_sum s2 + scast current_phase_error,
                            phase_error_count := phase_error_count s2 + 1\<rparr>
                in if last_sample_count s3 = sample_count s3 then (SampleIncomplete, s3)
                   else window_update (s3\<lparr>last_sample_count := sample_count s3\<rparr>))"

subsection \<open>main: an iteration interrupted by the GPS\<close>

text \<open>
  The main loop runs with interrupts enabled. Here is the iteration in which the serial
  interrupt delivers a GPS status in the middle of a window update, after line 673 has
  computed \<^verbatim>\<open>current_error\<close> and before line 683 adds it to \<^verbatim>\<open>total_error\<close> (where
  the debug build transmits the \<^verbatim>\<open>CE=\<close> line). The locals keep their values; the
  globals are read again after the interrupt, being \<^verbatim>\<open>volatile\<close>.
\<close>

definition window_update_interrupted :: "bool \<Rightarrow> gpsdo \<Rightarrow> loop_result \<times> gpsdo" where
  "window_update_interrupted fix3d s0 =
     (let spe = window_phase_error s0;
          s1 = s0\<lparr>phase_error_sum := 0, phase_error_count := 0\<rparr>;
          total = sum_samples (take (nat (sint (valid_samples s1))) (sample_buffer s1)) 0;
          drift = long_div (total * 10) (word_of_nat SAMPLE_COUNT);
          s2 = s1\<lparr>lock := classify_lock (valid_samples s1) drift\<rparr>
      in if sint (valid_samples s2) \<le> 0 then (NoSamples spe drift, s2)
         else
           let cur = 10 * drift + scast (int_div spe 14);
               si = handleGPS fix3d s2;
               s3 = si\<lparr>total_error := total_error si + cur\<rparr>;
               adj = long_div (DAC_SIGN * (cur * K_P + total_error s3 * K_I)) 10000;
               s4 = s3\<lparr>trim_percent := trim_percent s3 - adj\<rparr>;
               tv = (ucast (long_div (trim_percent s4) 100) :: u16) + 0x8000;
               s5 = writeDacValue tv s4;
               s6 = (if sint (abs_int (ucast cur)) < 100
                        \<and> sint (abs_int (eeprom_trim s5 - tv)) > EE_UPDATE_OFFSET
                     then s5\<lparr>eeprom_trim := tv\<rparr> else s5)
           in (Updated \<lparr>sample_phase_error = spe, sample_drift = drift,
                        current_error = cur, adj_val = adj, trim_value = tv\<rparr>, s6))"

definition main_loop_body_interrupted :: "bool \<Rightarrow> gpsdo \<Rightarrow> loop_result \<times> gpsdo" where
  "main_loop_body_interrupted fix3d s0 =
     (let s1 = s0\<lparr>gps_status := gps_status s0 OR 2\<rparr>
      in if last_pps_count s1 = pps_count s1 then (NoPps, s1)
         else
           let s2 = s1\<lparr>last_pps_count := pps_count s1\<rparr>
           in if erroneous_delta s2 \<noteq> 0
              then (Erroneous (erroneous_delta s2), s2\<lparr>erroneous_delta := 0\<rparr>)
              else
                let current_phase_error = PHASE_ADC_MIDPOINT - last_adc_value s2;
                    s3 = s2\<lparr>phase_error_sum := phase_error_sum s2 + scast current_phase_error,
                            phase_error_count := phase_error_count s2 + 1\<rparr>
                in if last_sample_count s3 = sample_count s3 then (SampleIncomplete, s3)
                   else window_update_interrupted fix3d
                          (s3\<lparr>last_sample_count := sample_count s3\<rparr>))"

subsection \<open>Runs\<close>

text \<open>
  Interrupt handlers run with interrupts disabled, so each is one step. In a run an
  iteration of the main loop is one step too: the handlers come between iterations. A
  run starts with \<open>main_init\<close> and is a sequence of events.
\<close>

datatype event =
    Capture capt_hw
  | Overflow
  | Gps bool
  | Loop

fun step :: "event \<Rightarrow> gpsdo \<Rightarrow> gpsdo" where
  "step (Capture hw) s = TIMER1_CAPT_vect hw s"
| "step Overflow s = TIMER1_OVF_vect s"
| "step (Gps fix3d) s = handleGPS fix3d s"
| "step Loop s = snd (main_loop_body s)"

fun run :: "event list \<Rightarrow> gpsdo \<Rightarrow> gpsdo" where
  "run [] s = s"
| "run (e # es) s = run es (step e s)"

subsection \<open>Notions used in the statements\<close>

text \<open>The word the DAC holds: the data of the last frame it received, or the mid-point
  it powers up at (the assumption of line 472).\<close>

definition dac_output :: "gpsdo \<Rightarrow> u16" where
  "dac_output s = (if dac_log s = [] then 0x8000 else last (dac_log s))"

text \<open>\<open>last_dac_value\<close> is the program's copy of that word.\<close>

definition dac_tracked :: "gpsdo \<Rightarrow> bool" where
  "dac_tracked s = (last_dac_value s = dac_output s)"

text \<open>The two halves of a 32-bit tick.\<close>

definition tick_low :: "u32 \<Rightarrow> u16" where
  "tick_low t = ucast t"

definition tick_high :: "u32 \<Rightarrow> u16" where
  "tick_high t = ucast (drop_bit 16 t)"

text \<open>The delta of the window that a capture closes (lines 253 and 257).\<close>

definition window_delta :: "capt_hw \<Rightarrow> gpsdo \<Rightarrow> u32" where
  "window_delta hw s =
     capture_tick (ICR1 hw) (TOV1 hw) (timer_hibits s) - last_timer_val s
       - word_of_nat SAMPLE_SECONDS * NOMINAL_CLOCK"

text \<open>The fill count is the skip marker or a count up to \<open>SAMPLE_COUNT\<close>, and the buffer
  has its \<open>SAMPLE_COUNT\<close> cells.\<close>

definition samples_ok :: "gpsdo \<Rightarrow> bool" where
  "samples_ok s =
     ((valid_samples s = - 1 \<or>
       (0 \<le> sint (valid_samples s) \<and> sint (valid_samples s) \<le> int SAMPLE_COUNT)) \<and>
      length (sample_buffer s) = SAMPLE_COUNT)"

text \<open>A sequence of accepted deltas, stored one after the other.\<close>

fun store_all :: "u32 list \<Rightarrow> gpsdo \<Rightarrow> gpsdo" where
  "store_all [] s = s"
| "store_all (d # ds) s = store_all ds (store_sample d s)"

text \<open>The first \<open>valid_samples\<close> cells of the buffer are the last \<open>SAMPLE_COUNT\<close> of the
  deltas \<open>ds\<close> (all of them when there are fewer), oldest first.\<close>

definition holds_recent :: "gpsdo \<Rightarrow> u32 list \<Rightarrow> bool" where
  "holds_recent s ds =
    (length (sample_buffer s) = SAMPLE_COUNT \<and>
     valid_samples s = word_of_nat (min SAMPLE_COUNT (length ds)) \<and>
     take (min SAMPLE_COUNT (length ds)) (sample_buffer s) =
       drop (length ds - SAMPLE_COUNT) (map ucast ds))"

text \<open>A locked state whose buffer is full, one PPS edge before its window closes.\<close>

definition full_buffer :: gpsdo where
  "full_buffer = (main_init 0x8000)\<lparr>gps_status := 1, sample_window_pos := 1, valid_samples := 10,
      sample_buffer := [1, 2, 3, 4, 5, 6, 7, 8, 9, 10], timer_hibits := 0x0EE6\<rparr>"

text \<open>The values a \<^verbatim>\<open>long\<close> and an \<^verbatim>\<open>int\<close> can hold.\<close>

definition fits_long :: "int \<Rightarrow> bool" where
  "fits_long x = (- 2147483648 \<le> x \<and> x < 2147483648)"

definition fits_int :: "int \<Rightarrow> bool" where
  "fits_int x = (- 32768 \<le> x \<and> x < 32768)"

text \<open>A state locked since boot with 24 edges of the first window behind it, 250 million
  ticks and a little more after the tick \<open>0\<close> that \<open>last_timer_val\<close> holds. The skip
  marker is still armed; with \<open>valid_samples := 0\<close> it is the same moment one window
  later.\<close>

definition window_closing :: gpsdo where
  "window_closing = (main_init 0x8000)\<lparr>gps_status := 1, sample_window_pos := 1,
      timer_hibits := 0x0EE6\<rparr>"

text \<open>
  The quantities of a window update in exact integer arithmetic, as functions of the
  state the update starts from, with \<open>sdiv\<close> for C's truncating \<^verbatim>\<open>/\<close>: the sum of the
  valid samples, the drift, the combined error, the integrator, the adjustment, the
  trim and the DAC word.
\<close>

definition buffer_sum :: "gpsdo \<Rightarrow> int" where
  "buffer_sum s = sum_list (map sint (take (nat (sint (valid_samples s))) (sample_buffer s)))"

definition exact_drift :: "gpsdo \<Rightarrow> int" where
  "exact_drift s = (buffer_sum s * 10) sdiv 10"

definition exact_error :: "gpsdo \<Rightarrow> int" where
  "exact_error s = 10 * exact_drift s + sint (window_phase_error s) sdiv 14"

definition exact_total :: "gpsdo \<Rightarrow> int" where
  "exact_total s = sint (total_error s) + exact_error s"

definition exact_adj :: "gpsdo \<Rightarrow> int" where
  "exact_adj s = (- 1 * (exact_error s * 31400 + exact_total s * 13)) sdiv 10000"

definition exact_trim :: "gpsdo \<Rightarrow> int" where
  "exact_trim s = sint (trim_percent s) - exact_adj s"

definition exact_dac :: "gpsdo \<Rightarrow> int" where
  "exact_dac s = exact_trim s sdiv 100 + 0x8000"

text \<open>None of the \<^verbatim>\<open>long\<close> results of lines 683 to 686 overflows. (The results before
  them cannot.)\<close>

definition no_overflow :: "gpsdo \<Rightarrow> bool" where
  "no_overflow s =
     (fits_long (exact_total s) \<and>
      fits_long (exact_error s * 31400) \<and>
      fits_long (exact_total s * 13) \<and>
      fits_long (exact_error s * 31400 + exact_total s * 13) \<and>
      fits_long (- 1 * (exact_error s * 31400 + exact_total s * 13)) \<and>
      fits_long (exact_trim s))"

text \<open>A state in which a window has just closed with two samples in the buffer,
  summing to 60 ticks fast, and a phase error sum of 312.\<close>

definition fast_by_60 :: gpsdo where
  "fast_by_60 = (main_init 0x8000)\<lparr>gps_status := 3, valid_samples := 2,
      sample_buffer := [100, - 40, 0, 0, 0, 0, 0, 0, 0, 0], phase_error_sum := 312\<rparr>"

text \<open>The phase error that an iteration of the main loop computed, when it closed a
  window.\<close>

fun reported_phase_error :: "loop_result \<Rightarrow> u16 option" where
  "reported_phase_error (NoSamples spe drift) = Some spe"
| "reported_phase_error (Updated l) = Some (sample_phase_error l)"
| "reported_phase_error _ = None"

text \<open>The phase accumulator after one more reading, and the phase error of a window
  from its accumulator, in exact integer arithmetic.\<close>

definition exact_phase_sum :: "gpsdo \<Rightarrow> u16 \<Rightarrow> int" where
  "exact_phase_sum s adc = sint (phase_error_sum s) + (512 - uint adc)"

definition exact_phase_error :: "int \<Rightarrow> int" where
  "exact_phase_error ps = ((ps sdiv 25) * 1000) sdiv 512"

text \<open>Line 259: the closing edge rejects the delta of its window.\<close>

definition rejects :: "capt_hw \<Rightarrow> gpsdo \<Rightarrow> bool" where
  "rejects hw s =
     (MAX_DELTA < sint (abs_int (ucast (window_delta hw s))) \<and> 0 \<le> sint (valid_samples s))"

text \<open>Two locked states after the warm-up window, with every earlier edge seen by the
  main loop and 100 in the phase accumulator: five edges before the window closes, and
  one edge before it closes.\<close>

definition mid_window :: gpsdo where
  "mid_window = window_closing\<lparr>valid_samples := 0, sample_window_pos := 5,
      phase_error_sum := 100, phase_error_count := 20\<rparr>"

definition end_of_window :: gpsdo where
  "end_of_window = window_closing\<lparr>valid_samples := 0, phase_error_sum := 100,
      phase_error_count := 24\<rparr>"

text \<open>
  Pieces of a run. A PPS edge comes after \<open>k\<close> more timer overflows and finds \<open>low\<close> in
  the capture register, no overflow pending and the phase reading at the mid-point. A
  second is such an edge followed by an iteration of the main loop. A window is 24
  seconds of 152 overflows each, whose capture value the interrupt does not read while
  locked, and a last second.
\<close>

definition edge_of :: "nat \<Rightarrow> u16 \<Rightarrow> event list" where
  "edge_of k low = replicate k Overflow @ [Capture \<lparr>ICR1 = low, TOV1 = False, ADC = 512\<rparr>]"

definition second_of :: "nat \<Rightarrow> u16 \<Rightarrow> event list" where
  "second_of k low = edge_of k low @ [Loop]"

definition window_of :: "nat \<Rightarrow> u16 \<Rightarrow> event list" where
  "window_of k low = concat (replicate 24 (second_of 152 0)) @ second_of k low"

text \<open>
  A run from boot with the EEPROM word at \<open>0x8000\<close>: a 3D fix, the warm-up window, then
  windows of 250002500, 250002500 and 250001554 ticks, up to the edge that closes the
  last of them. The closing edges are at ticks 250000000, 500002500, 750005000 and
  1000006554.
\<close>

definition far_off_events :: "event list" where
  "far_off_events =
     Gps True # window_of 166 0xB280 @ window_of 167 0x6EC4 @ window_of 167 0x2B08 @
     concat (replicate 24 (second_of 152 0)) @ edge_of 166 0xE39A"

text \<open>The state that run ends in: the window updates for the first two samples have
  run, the third is about to.\<close>

definition far_off :: gpsdo where
  "far_off =
     \<lparr>last_dac_value = 35124, phase_error_sum = 0, phase_error_count = 24,
      sample_buffer = [2500, 2500, 1554, 0, 0, 0, 0, 0, 0, 0], valid_samples = 3,
      sample_window_pos = 25, timer_hibits = 15258, pps_count = 100, sample_count = 4,
      gps_status = 3, lock = 0, total_error = 75000, trim_percent = 235629,
      last_adc_value = 512, erroneous_delta = 0, last_timer_val = 1000006554,
      last_pps_count = 99, last_sample_count = 3, eeprom_trim = 0x8000,
      dac_log = [33553, 35124]\<rparr>"

text \<open>The states of that run after the warm-up window and after each of the first two
  samples.\<close>

definition after_warm_up :: gpsdo where
  "after_warm_up =
   \<lparr>last_dac_value = 0x8000, phase_error_sum = 0, phase_error_count = 0,
      sample_buffer = [0, 0, 0, 0, 0, 0, 0, 0, 0, 0], valid_samples = 0, sample_window_pos = 25,
      timer_hibits = 3814, pps_count = 25, sample_count = 1, gps_status = 3, lock = 0,
      total_error = 0, trim_percent = 0, last_adc_value = 512, erroneous_delta = 0,
      last_timer_val = 250000000, last_pps_count = 25, last_sample_count = 1,
      eeprom_trim = 0x8000, dac_log = []\<rparr>"

definition after_first_sample :: gpsdo where
  "after_first_sample =
   \<lparr>last_dac_value = 33553, phase_error_sum = 0, phase_error_count = 0,
      sample_buffer = [2500, 0, 0, 0, 0, 0, 0, 0, 0, 0], valid_samples = 1, sample_window_pos = 25,
      timer_hibits = 7629, pps_count = 50, sample_count = 2, gps_status = 3, lock = 0,
      total_error = 25000, trim_percent = 78532, last_adc_value = 512, erroneous_delta = 0,
      last_timer_val = 500002500, last_pps_count = 50, last_sample_count = 2,
      eeprom_trim = 0x8000, dac_log = [33553]\<rparr>"

definition after_second_sample :: gpsdo where
  "after_second_sample =
   \<lparr>last_dac_value = 35124, phase_error_sum = 0, phase_error_count = 0,
      sample_buffer = [2500, 2500, 0, 0, 0, 0, 0, 0, 0, 0], valid_samples = 2, sample_window_pos = 25,
      timer_hibits = 11444, pps_count = 75, sample_count = 3, gps_status = 3, lock = 0,
      total_error = 75000, trim_percent = 235629, last_adc_value = 512, erroneous_delta = 0,
      last_timer_val = 750005000, last_pps_count = 75, last_sample_count = 3,
      eeprom_trim = 0x8000, dac_log = [33553, 35124]\<rparr>"

text \<open>The run of \<open>far_off_events\<close> up to the edge that closes the first window after
  the warm-up, 250002500 ticks long, and the state it ends in.\<close>

definition first_sample_events :: "event list" where
  "first_sample_events =
     Gps True # window_of 166 0xB280 @
     concat (replicate 24 (second_of 152 0)) @ edge_of 167 0x6EC4"

definition first_sample_pending :: gpsdo where
  "first_sample_pending =
   \<lparr>last_dac_value = 0x8000, phase_error_sum = 0, phase_error_count = 24,
      sample_buffer = [2500, 0, 0, 0, 0, 0, 0, 0, 0, 0], valid_samples = 1, sample_window_pos = 25,
      timer_hibits = 7629, pps_count = 50, sample_count = 2, gps_status = 3, lock = 0,
      total_error = 0, trim_percent = 0, last_adc_value = 512, erroneous_delta = 0,
      last_timer_val = 500002500, last_pps_count = 49, last_sample_count = 1,
      eeprom_trim = 0x8000, dac_log = []\<rparr>"

text \<open>The state after the window update for that sample, when the loss of the fix
  interrupted it.\<close>

definition unlocked_mid_update :: gpsdo where
  "unlocked_mid_update =
   \<lparr>last_dac_value = 33553, phase_error_sum = 0, phase_error_count = 0,
      sample_buffer = [2500, 0, 0, 0, 0, 0, 0, 0, 0, 0], valid_samples = - 1, sample_window_pos = 25,
      timer_hibits = 7629, pps_count = 50, sample_count = 2, gps_status = 0, lock = 0,
      total_error = 25000, trim_percent = 78532, last_adc_value = 512, erroneous_delta = 0,
      last_timer_val = 500002500, last_pps_count = 50, last_sample_count = 2,
      eeprom_trim = 0x8000, dac_log = [33553]\<rparr>"

text \<open>A run in which the first window after the warm-up is 249999900 ticks long, 100
  short of nominal, and the state it ends in.\<close>

definition slow_sample_events :: "event list" where
  "slow_sample_events = Gps True # window_of 166 0xB280 @ window_of 167 0x649C"

definition after_slow_sample :: gpsdo where
  "after_slow_sample =
   \<lparr>last_dac_value = 32737, phase_error_sum = 0, phase_error_count = 0,
      sample_buffer = [- 100, 0, 0, 0, 0, 0, 0, 0, 0, 0], valid_samples = 1, sample_window_pos = 25,
      timer_hibits = 7629, pps_count = 50, sample_count = 2, gps_status = 3, lock = 0,
      total_error = - 1000, trim_percent = - 3141, last_adc_value = 512, erroneous_delta = 0,
      last_timer_val = 499999900, last_pps_count = 50, last_sample_count = 2,
      eeprom_trim = 0x8000, dac_log = [32737]\<rparr>"

text \<open>A run in which the phase reading is 508 in the 24 seconds after the warm-up, and
  the edge that closes the window comes 250003000 ticks after the last one, with a
  reading of 500. The state is the one that the main loop finds after that edge.\<close>

definition rejected_window_events :: "event list" where
  "rejected_window_events =
     Gps True # window_of 166 0xB280 @
     concat (replicate 24
       (replicate 152 Overflow @ [Capture \<lparr>ICR1 = 0, TOV1 = False, ADC = 508\<rparr>, Loop])) @
     replicate 167 Overflow @ [Capture \<lparr>ICR1 = 0x70B8, TOV1 = False, ADC = 500\<rparr>]"

definition rejected_window_closed :: gpsdo where
  "rejected_window_closed =
   \<lparr>last_dac_value = 0x8000, phase_error_sum = 96, phase_error_count = 24,
      sample_buffer = [0, 0, 0, 0, 0, 0, 0, 0, 0, 0], valid_samples = 0, sample_window_pos = 25,
      timer_hibits = 7629, pps_count = 50, sample_count = 1, gps_status = 3, lock = 0,
      total_error = 0, trim_percent = 0, last_adc_value = 500, erroneous_delta = 3000,
      last_timer_val = 500003000, last_pps_count = 49, last_sample_count = 1,
      eeprom_trim = 0x8000, dac_log = []\<rparr>"

text \<open>A run from the gain of the fix to the end of the warm-up window, and the state in
  which the edge that closes this window arrives.\<close>

definition warm_up_events :: "event list" where
  "warm_up_events =
     Gps True # concat (replicate 24 (second_of 152 0)) @ replicate 166 Overflow"

definition warm_up_closing :: gpsdo where
  "warm_up_closing =
   \<lparr>last_dac_value = 0x8000, phase_error_sum = 0, phase_error_count = 24,
      sample_buffer = [0, 0, 0, 0, 0, 0, 0, 0, 0, 0], valid_samples = - 1, sample_window_pos = 1,
      timer_hibits = 3814, pps_count = 24, sample_count = 0, gps_status = 3, lock = 0,
      total_error = 0, trim_percent = 0, last_adc_value = 512, erroneous_delta = 0,
      last_timer_val = 0, last_pps_count = 24, last_sample_count = 0,
      eeprom_trim = 0x8000, dac_log = []\<rparr>"

text \<open>A run in which the first window after the warm-up is 250065636 ticks long, and the
  state it ends in, before the main loop runs.\<close>

definition wide_delta_events :: "event list" where
  "wide_delta_events =
     Gps True # window_of 166 0xB280 @
     concat (replicate 24 (second_of 152 0)) @ edge_of 168 0x6564"

definition wide_delta_stored :: gpsdo where
  "wide_delta_stored =
   \<lparr>last_dac_value = 0x8000, phase_error_sum = 0, phase_error_count = 24,
      sample_buffer = [100, 0, 0, 0, 0, 0, 0, 0, 0, 0], valid_samples = 1, sample_window_pos = 25,
      timer_hibits = 7630, pps_count = 50, sample_count = 2, gps_status = 3, lock = 0,
      total_error = 0, trim_percent = 0, last_adc_value = 512, erroneous_delta = 0,
      last_timer_val = 500065636, last_pps_count = 49, last_sample_count = 1,
      eeprom_trim = 0x8000, dac_log = []\<rparr>"

section \<open>Evaluating runs\<close>

text \<open>The definitions that \<open>simp\<close> unfolds to evaluate the model on a given state, and the
  equations that take a run apart.\<close>

lemmas boot_defs = main_init_def startup_def writeDacValue_def Let_def
  SAMPLE_COUNT_def SAMPLE_SECONDS_def PHASE_ADC_MIDPOINT_def

lemma run_append: "run (xs @ ys) s = run ys (run xs s)"
  by (induction xs arbitrary: s) simp_all

lemma run_overflows:
  "run (replicate n Overflow) s = s\<lparr>timer_hibits := timer_hibits s + word_of_nat n\<rparr>"
  by (induction n arbitrary: s) (simp_all add: TIMER1_OVF_vect_def)

lemma run_edge:
  "run (edge_of k low) s =
     TIMER1_CAPT_vect \<lparr>ICR1 = low, TOV1 = False, ADC = 512\<rparr>
        (s\<lparr>timer_hibits := timer_hibits s + word_of_nat k\<rparr>)"
  by (simp add: edge_of_def run_append run_overflows)

lemma run_second:
  "run (second_of k low) s = snd (main_loop_body (run (edge_of k low) s))"
  by (simp add: second_of_def run_append)

lemma run_repeat:
  "run (concat (replicate (numeral k) xs)) s =
     run (concat (replicate (pred_numeral k) xs)) (run xs s)"
  "run (concat (replicate 0 xs)) s = s"
  "run (concat (replicate (Suc 0) xs)) s = run xs s"
  by (simp_all add: numeral_eq_Suc run_append)

lemma run_window:
  "run (window_of k low) s =
     run (second_of k low) (run (concat (replicate 24 (second_of 152 0))) s)"
  by (simp add: window_of_def run_append)

text \<open>Evaluation in two stages: the events up to the call of \<open>window_update\<close>, then the
  window update.\<close>

lemmas edge_defs = run_window run_repeat run_second run_edge
  TIMER1_CAPT_vect_def main_loop_body_def store_sample_def capture_tick_def abs_int_def
  handleGPS_def Let_def SAMPLE_COUNT_def SAMPLE_SECONDS_def MAX_DELTA_def NOMINAL_CLOCK_def
  PHASE_ADC_MIDPOINT_def

lemmas update_defs = window_update_def window_phase_error_def classify_lock_def
  long_div_def int_div_def abs_int_def writeDacValue_def signed_divide_int_def Let_def
  SAMPLE_COUNT_def SAMPLE_SECONDS_def K_P_def K_I_def DAC_SIGN_def EE_UPDATE_OFFSET_def

lemma ten_zeros: "replicate 10 (0::u16) = [0, 0, 0, 0, 0, 0, 0, 0, 0, 0]"
  by (simp add: numeral_eq_Suc)

lemma boot_state: "main_init 0x8000 =
   \<lparr>last_dac_value = 0x8000, phase_error_sum = 0, phase_error_count = 0,
      sample_buffer = [0, 0, 0, 0, 0, 0, 0, 0, 0, 0], valid_samples = - 1, sample_window_pos = 25,
      timer_hibits = 0, pps_count = 0, sample_count = 0, gps_status = 0, lock = 0,
      total_error = 0, trim_percent = 0, last_adc_value = 512, erroneous_delta = 0,
      last_timer_val = 0, last_pps_count = 0, last_sample_count = 0,
      eeprom_trim = 0x8000, dac_log = []\<rparr>"
  by (simp add: boot_defs ten_zeros)

lemma warm_up_run: "run (window_of 166 0xB280) (handleGPS True (main_init 0x8000)) = after_warm_up"
  unfolding boot_state after_warm_up_def
  by (simp add: edge_defs) (simp add: update_defs)

section \<open>The DAC write contract\<close>

lemma writeDacValue_tracked: "dac_tracked s \<Longrightarrow> dac_tracked (writeDacValue v s)"
  by (simp add: dac_tracked_def dac_output_def writeDacValue_def)

lemma dac_frame:
  "last_dac_value s' = last_dac_value s \<Longrightarrow> dac_log s' = dac_log s \<Longrightarrow>
   dac_tracked s \<Longrightarrow> dac_tracked s'"
  by (simp add: dac_tracked_def dac_output_def)

lemma store_sample_dac:
  "last_dac_value (store_sample d s) = last_dac_value s"
  "dac_log (store_sample d s) = dac_log s"
  by (simp_all add: store_sample_def)

lemma capt_tracked: "dac_tracked s \<Longrightarrow> dac_tracked (TIMER1_CAPT_vect hw s)"
  by (rule dac_frame) (simp_all add: TIMER1_CAPT_vect_def Let_def store_sample_dac)

lemma ovf_tracked: "dac_tracked s \<Longrightarrow> dac_tracked (TIMER1_OVF_vect s)"
  by (rule dac_frame) (simp_all add: TIMER1_OVF_vect_def)

lemma gps_tracked: "dac_tracked s \<Longrightarrow> dac_tracked (handleGPS fix3d s)"
  by (rule dac_frame) (simp_all add: handleGPS_def Let_def)

lemma window_update_tracked: "dac_tracked s \<Longrightarrow> dac_tracked (snd (window_update s))"
proof -
  assume t: "dac_tracked s"
  have f: "dac_tracked s'"
    if "last_dac_value s' = last_dac_value s" "dac_log s' = dac_log s" for s'
    using that t by (rule dac_frame)
  have e: "dac_tracked (s'\<lparr>eeprom_trim := w\<rparr>)" if "dac_tracked s'" for s' w
    using that by (simp add: dac_tracked_def dac_output_def)
  show ?thesis
    unfolding window_update_def Let_def
    by (simp add: f e writeDacValue_tracked)
qed

lemma loop_tracked: "dac_tracked s \<Longrightarrow> dac_tracked (snd (main_loop_body s))"
proof -
  assume t: "dac_tracked s"
  have f: "dac_tracked s'"
    if "last_dac_value s' = last_dac_value s" "dac_log s' = dac_log s" for s'
    using that t by (rule dac_frame)
  show ?thesis
    unfolding main_loop_body_def Let_def
    by (simp add: f window_update_tracked)
qed

lemma step_tracked: "dac_tracked s \<Longrightarrow> dac_tracked (step e s)"
  by (cases e) (simp_all add: capt_tracked ovf_tracked gps_tracked loop_tracked)

lemma run_tracked: "dac_tracked s \<Longrightarrow> dac_tracked (run es s)"
  by (induction es arbitrary: s) (simp_all add: step_tracked)

lemma init_tracked: "dac_tracked (main_init ee)"
  by (simp add: dac_tracked_def dac_output_def main_init_def startup_def writeDacValue_def Let_def)

text \<open>
  Claim C8. In every state that a run reaches, \<open>last_dac_value\<close> is the word the DAC
  holds. In a state where it is, a request to write that same word changes nothing: no
  frame is sent. A request to write a different word \<open>v\<close> sends exactly one frame
  carrying \<open>v\<close>, and repeating the request sends no second one. After any request the
  DAC holds \<open>v\<close> and \<open>last_dac_value\<close> still tracks it.
\<close>

theorem writeDacValue_same_word_once:
  "dac_tracked (run evs (main_init ee)) \<and>
   (dac_tracked s \<longrightarrow>
      (dac_output s = v \<longrightarrow> writeDacValue v s = s) \<and>
      (dac_output s \<noteq> v \<longrightarrow>
         dac_log (writeDacValue v s) = dac_log s @ [v] \<and>
         dac_log (writeDacValue v (writeDacValue v s)) = dac_log s @ [v]) \<and>
      dac_output (writeDacValue v s) = v \<and>
      dac_tracked (writeDacValue v s))"
proof
  show "dac_tracked (run evs (main_init ee))"
    by (rule run_tracked) (rule init_tracked)
  show "dac_tracked s \<longrightarrow>
      (dac_output s = v \<longrightarrow> writeDacValue v s = s) \<and>
      (dac_output s \<noteq> v \<longrightarrow>
         dac_log (writeDacValue v s) = dac_log s @ [v] \<and>
         dac_log (writeDacValue v (writeDacValue v s)) = dac_log s @ [v]) \<and>
      dac_output (writeDacValue v s) = v \<and>
      dac_tracked (writeDacValue v s)"
    by (simp add: dac_tracked_def dac_output_def writeDacValue_def)
qed

theorem writeDacValue_same_word_once_witness:
  "dac_tracked (main_init 0x1234) \<and>
   dac_log (main_init 0x1234) = [0x1234] \<and>
   writeDacValue 0x1234 (main_init 0x1234) = main_init 0x1234 \<and>
   dac_log (writeDacValue 0x5678 (main_init 0x1234)) = [0x1234, 0x5678] \<and>
   dac_log (writeDacValue 0x5678 (writeDacValue 0x5678 (main_init 0x1234))) = [0x1234, 0x5678]"
proof -
  have t: "dac_tracked (main_init 0x1234)"
    using writeDacValue_same_word_once [where evs = "[]" and ee = "0x1234", THEN conjunct1]
    by simp
  have l: "dac_log (main_init 0x1234) = [0x1234]"
    by (simp add: main_init_def startup_def writeDacValue_def Let_def)
  have o: "dac_output (main_init 0x1234) = 0x1234"
    by (simp add: dac_output_def l)
  show ?thesis
    using writeDacValue_same_word_once [where s = "main_init 0x1234" and v = "0x1234",
        THEN conjunct2, THEN mp, OF t]
      writeDacValue_same_word_once [where s = "main_init 0x1234" and v = "0x5678",
        THEN conjunct2, THEN mp, OF t] t l o
    by simp
qed

section \<open>The GPS-fix gate\<close>

text \<open>
  Claim C3, as the code has it. When the fix is lost (bit 0 of \<open>gps_status\<close> set, the
  sentence reports no 3D fix) the gate records the new status, sets \<open>valid_samples\<close> to
  \<open>-1\<close> and \<open>sample_window_pos\<close> to 25, and clears \<open>total_error\<close> and \<open>lock\<close>. When the
  fix is gained it only records the new status: the four variables keep the values
  they have. In both directions every other field, \<open>trim_percent\<close>, \<open>last_dac_value\<close>
  and the DAC among them, is left as it is.
\<close>

theorem handleGPS_change:
  "(gps_status s AND 1 = 1 \<longrightarrow>
      handleGPS False s =
        s\<lparr>gps_status := 0, valid_samples := - 1, sample_window_pos := 25,
          total_error := 0, lock := 0\<rparr>) \<and>
   (gps_status s AND 1 = 0 \<longrightarrow> handleGPS True s = s\<lparr>gps_status := 1\<rparr>)"
  by (simp add: handleGPS_def Let_def SAMPLE_SECONDS_def)

theorem handleGPS_change_witness:
  "handleGPS False ((main_init 0x8000)\<lparr>gps_status := 3, valid_samples := 4,
       sample_window_pos := 7, total_error := 1000, lock := 2\<rparr>) =
     (main_init 0x8000)\<lparr>gps_status := 0, valid_samples := - 1,
       sample_window_pos := 25, total_error := 0, lock := 0\<rparr> \<and>
   handleGPS True (main_init 0x8000) = (main_init 0x8000)\<lparr>gps_status := 1\<rparr>"
  using handleGPS_change [of "(main_init 0x8000)\<lparr>gps_status := 3, valid_samples := 4,
       sample_window_pos := 7, total_error := 1000, lock := 2\<rparr>"]
    handleGPS_change [of "main_init 0x8000"]
  by (simp add: main_init_def startup_def writeDacValue_def Let_def)

text \<open>
  The claim as stated fails in the direction Unlocked to Locked3D. The fix is gained,
  the warm-up window and the first sample, 2500 ticks long, go by, and the main loop
  starts the window update for that sample. The serial interrupt that reports the loss
  of the fix arrives after line 673 has computed \<open>current_error = 25000\<close>: the gate
  clears \<open>total_error\<close>, and line 683 then adds the 25000 to it. The receiver is now
  unlocked with \<open>total_error = 25000\<close>, and the gate, told of a 3D fix, changes the
  status and leaves the 25000 there.
\<close>

lemma first_sample_pending_reached:
  "run first_sample_events (main_init 0x8000) = first_sample_pending"
proof -
  have "run first_sample_events (main_init 0x8000) =
      run (concat (replicate 24 (second_of 152 0)) @ edge_of 167 0x6EC4)
        (run (window_of 166 0xB280) (handleGPS True (main_init 0x8000)))"
    unfolding first_sample_events_def by (simp only: run.simps step.simps run_append)
  also have "\<dots> = first_sample_pending"
    unfolding warm_up_run after_warm_up_def first_sample_pending_def run_append
    by (simp add: edge_defs)
  finally show ?thesis .
qed

lemma interrupted_update:
  "snd (main_loop_body_interrupted False first_sample_pending) = unlocked_mid_update"
  unfolding first_sample_pending_def unlocked_mid_update_def
  by (simp add: main_loop_body_interrupted_def Let_def PHASE_ADC_MIDPOINT_def)
     (simp add: window_update_interrupted_def handleGPS_def update_defs)

theorem handleGPS_gain_counterexample:
  "run first_sample_events (main_init 0x8000) = first_sample_pending \<and>
   snd (main_loop_body_interrupted False first_sample_pending) = unlocked_mid_update \<and>
   gps_status unlocked_mid_update AND 1 = 0 \<and>
   gps_status (handleGPS True unlocked_mid_update) AND 1 = 1 \<and>
   total_error (handleGPS True unlocked_mid_update) = 25000"
proof -
  have "gps_status unlocked_mid_update AND 1 = 0"
    "gps_status (handleGPS True unlocked_mid_update) AND 1 = 1"
    "total_error (handleGPS True unlocked_mid_update) = 25000"
    by (simp_all add: unlocked_mid_update_def handleGPS_def Let_def)
  with first_sample_pending_reached interrupted_update show ?thesis by simp
qed

section \<open>PPS edges while unlocked\<close>

text \<open>
  Claim C10. While bit 0 of \<open>gps_status\<close> is clear, the capture interrupt changes
  \<open>last_adc_value\<close> and \<open>last_timer_val\<close> and nothing else, so \<open>pps_count\<close>,
  \<open>sample_count\<close>, \<open>sample_buffer\<close>, \<open>valid_samples\<close> and \<open>sample_window_pos\<close> stay as
  they are. A main loop that had seen every earlier edge then finds \<open>pps_count\<close>
  unchanged and leaves at the first \<^verbatim>\<open>continue\<close>, having marked the status as logged
  and done nothing else.
\<close>

theorem capture_while_unlocked:
  assumes "gps_status s AND 1 = 0"
  shows "TIMER1_CAPT_vect hw s =
           s\<lparr>last_adc_value := ADC hw,
             last_timer_val := capture_tick (ICR1 hw) (TOV1 hw) (timer_hibits s)\<rparr> \<and>
         (last_pps_count s = pps_count s \<longrightarrow>
            main_loop_body (TIMER1_CAPT_vect hw s) =
              (NoPps, (TIMER1_CAPT_vect hw s)\<lparr>gps_status := gps_status s OR 2\<rparr>))"
  using assms by (simp add: TIMER1_CAPT_vect_def main_loop_body_def Let_def)

theorem capture_while_unlocked_witness:
  "gps_status (main_init 0x8000) AND 1 = 0 \<and>
   last_pps_count (main_init 0x8000) = pps_count (main_init 0x8000) \<and>
   TIMER1_CAPT_vect \<lparr>ICR1 = 0x1234, TOV1 = False, ADC = 500\<rparr> (main_init 0x8000) =
     (main_init 0x8000)\<lparr>last_adc_value := 500, last_timer_val := 0x1234\<rparr> \<and>
   main_loop_body (TIMER1_CAPT_vect \<lparr>ICR1 = 0x1234, TOV1 = False, ADC = 500\<rparr> (main_init 0x8000)) =
     (NoPps, (TIMER1_CAPT_vect \<lparr>ICR1 = 0x1234, TOV1 = False, ADC = 500\<rparr> (main_init 0x8000))
               \<lparr>gps_status := 2\<rparr>)"
proof -
  have h: "gps_status (main_init 0x8000) AND 1 = 0"
    by (simp add: main_init_def startup_def writeDacValue_def Let_def)
  have p: "last_pps_count (main_init 0x8000) = pps_count (main_init 0x8000)"
    by (simp add: main_init_def startup_def writeDacValue_def Let_def)
  have g: "gps_status (main_init 0x8000) OR 2 = 2"
    by (simp add: main_init_def startup_def writeDacValue_def Let_def)
  have t: "capture_tick 0x1234 False (timer_hibits (main_init 0x8000)) = 0x1234"
    by (simp add: main_init_def startup_def writeDacValue_def Let_def capture_tick_def)
  note w = capture_while_unlocked [OF h, of "\<lparr>ICR1 = 0x1234, TOV1 = False, ADC = 500\<rparr>"]
  have a: "TIMER1_CAPT_vect \<lparr>ICR1 = 0x1234, TOV1 = False, ADC = 500\<rparr> (main_init 0x8000) =
     (main_init 0x8000)\<lparr>last_adc_value := 500, last_timer_val := 0x1234\<rparr>"
    using w [THEN conjunct1] t by simp
  have b: "main_loop_body (TIMER1_CAPT_vect \<lparr>ICR1 = 0x1234, TOV1 = False, ADC = 500\<rparr> (main_init 0x8000)) =
     (NoPps, (TIMER1_CAPT_vect \<lparr>ICR1 = 0x1234, TOV1 = False, ADC = 500\<rparr> (main_init 0x8000))
               \<lparr>gps_status := 2\<rparr>)"
    using w [THEN conjunct2, THEN mp, OF p] unfolding g .
  from h p a b show ?thesis by (intro conjI)
qed

section \<open>The capture and overflow race\<close>

lemma nat_no_carry:
  fixes q r e :: nat
  assumes "q < 65536" "e < 32768" "r < 32768"
  shows "(65536 * q + r + e) mod 4294967296 div 65536 = q"
proof -
  have "65536 * q + r + e < 4294967296" using assms by linarith
  then have "(65536 * q + r + e) mod 4294967296 = 65536 * q + r + e" by simp
  moreover have "(65536 * q + r + e) div 65536 = q"
    by (rule div_nat_eqI) (use assms in simp_all)
  ultimately show ?thesis by simp
qed

lemma nat_carry:
  fixes q r e :: nat
  assumes "r < 65536" "q < 65536" "e < 32768" "32768 \<le> r"
    and low: "(65536 * q + r + e) mod 4294967296 mod 65536 < 32768"
  shows "(65536 * q + r + e) mod 4294967296 div 65536 = (q + 1) mod 65536"
proof (cases "r + e < 65536")
  case True
  have "65536 * q + r + e < 4294967296" using assms True by linarith
  then have m: "(65536 * q + r + e) mod 4294967296 = 65536 * q + (r + e)" by simp
  have "(65536 * q + (r + e)) mod 65536 = r + e" using True by simp
  with low m assms show ?thesis by simp
next
  case False
  define k where "k = r + e - 65536"
  have k: "k < 32768" "65536 * q + r + e = 65536 * (q + 1) + k"
    using False assms by (simp_all add: k_def)
  show ?thesis
  proof (cases "q + 1 < 65536")
    case True
    have "65536 * (q + 1) + k < 4294967296" using True k(1) by simp
    then have "(65536 * (q + 1) + k) mod 4294967296 = 65536 * (q + 1) + k" by simp
    moreover have "(65536 * (q + 1) + k) div 65536 = q + 1"
      by (rule div_nat_eqI) (use k in simp_all)
    ultimately show ?thesis using True k by simp
  next
    case False
    with assms have q: "q = 65535" by simp
    have "65536 * (q + 1) + k = 4294967296 + k" by (simp add: q)
    then have "(65536 * (q + 1) + k) mod 4294967296 = k" using k(1) by simp
    then have "(65536 * q + r + e) mod 4294967296 = k" unfolding k(2) .
    then show ?thesis using k(1) q by simp
  qed
qed

lemma join_low: "tick_low (push_bit 16 (ucast (h::u16)) OR ucast (l::u16)) = l"
  unfolding tick_low_def
  by (rule bit_word_eqI) (auto simp: bit_simps)

lemma join_high: "tick_high (push_bit 16 (ucast (h::u16)) OR ucast (l::u16)) = h"
  unfolding tick_high_def
  by (rule bit_word_eqI) (auto simp: bit_simps dest: bit_imp_le_length)

lemma join_split: "push_bit 16 (ucast (tick_high t)) OR ucast (tick_low t) = t"
  unfolding tick_high_def tick_low_def
  by (rule bit_word_eqI) (auto simp: bit_simps)

lemma unat_tick_low: "unat (tick_low t) = unat t mod 65536"
  by (simp add: tick_low_def unsigned_ucast_eq take_bit_eq_mod)

lemma unat_tick_high: "unat (tick_high t) = unat t div 65536"
proof -
  have "unat t < 2 ^ 32" using unsigned_less [of t] by simp
  then have "unat t div 65536 < 65536" by simp
  then show ?thesis
    by (simp add: tick_high_def unsigned_ucast_eq unat_drop_bit_eq drop_bit_eq_div
        take_bit_eq_mod unat_div)
qed

lemma unat_split: "unat (t::u32) = 65536 * unat (tick_high t) + unat (tick_low t)"
  by (simp add: unat_tick_high unat_tick_low)

lemma high_no_carry:
  fixes T d :: u32
  assumes "unat d < 32768" and "tick_low T < 0x8000"
  shows "tick_high (T + d) = tick_high T"
proof -
  have q: "unat (tick_high T) < 65536" using unsigned_less [of "tick_high T"] by simp
  have l: "unat (tick_low T) < 32768"
    using assms(2) by (simp add: word_less_nat_alt)
  have "unat (tick_high (T + d)) =
        (65536 * unat (tick_high T) + unat (tick_low T) + unat d) mod 4294967296 div 65536"
    by (simp add: unat_tick_high [of "T + d"] unat_word_ariths unat_split [of T])
  also have "\<dots> = unat (tick_high T)"
    by (rule nat_no_carry [OF q assms(1) l])
  finally show ?thesis by (simp add: word_unat_eq_iff)
qed

lemma high_carry:
  fixes T d :: u32
  assumes "unat d < 32768" and "\<not> tick_low T < 0x8000" and "tick_low (T + d) < 0x8000"
  shows "tick_high (T + d) = tick_high T + 1"
proof -
  have q: "unat (tick_high T) < 65536" using unsigned_less [of "tick_high T"] by simp
  have r: "unat (tick_low T) < 65536" using unsigned_less [of "tick_low T"] by simp
  have l: "32768 \<le> unat (tick_low T)"
    using assms(2) by (simp add: word_less_nat_alt)
  have s: "unat (T + d) =
        (65536 * unat (tick_high T) + unat (tick_low T) + unat d) mod 4294967296"
    by (simp add: unat_word_ariths unat_split [of T])
  have l2: "(65536 * unat (tick_high T) + unat (tick_low T) + unat d) mod 4294967296
              mod 65536 < 32768"
    using assms(3) by (simp add: word_less_nat_alt unat_tick_low [of "T + d"] s)
  have "unat (tick_high (T + d)) =
        (65536 * unat (tick_high T) + unat (tick_low T) + unat d) mod 4294967296 div 65536"
    by (simp add: unat_tick_high [of "T + d"] s)
  also have "\<dots> = (unat (tick_high T) + 1) mod 65536"
    by (rule nat_carry [OF r q assms(1) l l2])
  finally show ?thesis by (simp add: word_unat_eq_iff unat_word_ariths)
qed

text \<open>
  Claim C2. The tick has the captured bits as its low half, and as its high half the
  stored high half plus one when an overflow is pending and the captured bits are below
  \<open>0x8000\<close>, the stored high half otherwise.

  That this is the right tick is a statement about the timer. Let \<open>T\<close> be the count of
  the free-running 32-bit extension of the timer at the PPS edge, so that the hardware
  latches \<open>tick_low T\<close>, and let the interrupt read the overflow flag \<open>d\<close> ticks later,
  less than half a timer period. Every overflow up to then has either been counted in
  the stored high half or is the one pending; a pending overflow is less than half a
  period old; and no overflow that followed the edge has been counted, the capture
  interrupt having priority. Then the tick is \<open>T\<close>: whether the overflow came with the
  edge, just before it or just after it, the tick is neither 65536 too low nor 65536
  too high.
\<close>

theorem capture_tick_rule:
  fixes T d :: u32
  shows "tick_low (capture_tick lo tov hi) = lo \<and>
         tick_high (capture_tick lo tov hi) = (if tov \<and> lo < 0x8000 then hi + 1 else hi) \<and>
         (unat d < 0x8000 \<and>
          tick_high (T + d) = hi + (if tov then 1 else 0) \<and>
          (tov \<longrightarrow> tick_low (T + d) < 0x8000) \<and>
          (\<not> tov \<longrightarrow> tick_high (T + d) = tick_high T)
          \<longrightarrow> capture_tick (tick_low T) tov hi = T)"
proof -
  have rule: "tick_low (capture_tick lo tov hi) = lo"
     "tick_high (capture_tick lo tov hi) = (if tov \<and> lo < 0x8000 then hi + 1 else hi)"
    by (simp_all add: capture_tick_def Let_def join_low join_high)
  have race: "capture_tick (tick_low T) tov hi = T"
    if d: "unat d < 0x8000"
      and h: "tick_high (T + d) = hi + (if tov then 1 else 0)"
      and p: "tov \<longrightarrow> tick_low (T + d) < 0x8000"
      and n: "\<not> tov \<longrightarrow> tick_high (T + d) = tick_high T"
  proof -
    have "(if tov \<and> tick_low T < 0x8000 then hi + 1 else hi) = tick_high T"
    proof (cases tov)
      case False
      with h n show ?thesis by simp
    next
      case True
      show ?thesis
      proof (cases "tick_low T < 0x8000")
        case True
        with \<open>tov\<close> h high_no_carry [of d T] d show ?thesis by simp
      next
        case False
        with \<open>tov\<close> h p high_carry [of d T] d show ?thesis by simp
      qed
    qed
    then show ?thesis
      by (simp add: capture_tick_def Let_def join_split)
  qed
  from rule race show ?thesis by blast
qed

text \<open>The edge in the cycle of the overflow (\<open>T = 0x30000\<close>, two overflows counted, the
  third pending), the edge one cycle before it with the overflow pending by the time
  the flag is read (\<open>T = 0x2FFFF\<close>), and the same edge with no overflow yet.\<close>

theorem capture_tick_rule_witness:
  "tick_low 0x30000 = 0 \<and> tick_low 0x2FFFF = 0xFFFF \<and>
   capture_tick (tick_low 0x30000) True 2 = 0x30000 \<and>
   capture_tick (tick_low 0x2FFFF) True 2 = 0x2FFFF \<and>
   capture_tick (tick_low 0x2FFFF) False 2 = 0x2FFFF"
proof -
  have a: "capture_tick (tick_low 0x30000) True 2 = 0x30000"
    using capture_tick_rule [of 0 True 2 40 "0x30000"]
    by (simp add: tick_low_def tick_high_def)
  have b: "capture_tick (tick_low 0x2FFFF) True 2 = 0x2FFFF"
    using capture_tick_rule [of 0 True 2 40 "0x2FFFF"]
    by (simp add: tick_low_def tick_high_def)
  have c: "capture_tick (tick_low 0x2FFFF) False 2 = 0x2FFFF"
    using capture_tick_rule [of 0 False 2 0 "0x2FFFF"]
    by (simp add: tick_low_def tick_high_def)
  have d: "tick_low 0x30000 = 0" "tick_low 0x2FFFF = 0xFFFF"
    by (simp_all add: tick_low_def)
  from a b c d show ?thesis by blast
qed

section \<open>The sample buffer\<close>

lemma sint_add1_u8: "sint (x::u8) < 127 \<Longrightarrow> sint (x + 1) = sint x + 1"
proof -
  assume a: "sint x < 127"
  have "- 128 \<le> sint x" using sint_ge [of x] by simp
  with a show ?thesis
    by (simp add: sint_word_ariths signed_take_bit_int_eq_self)
qed

lemma sint_of_nat_u8: "n \<le> 127 \<Longrightarrow> sint (word_of_nat n :: u8) = int n"
  by (simp add: signed_of_nat signed_take_bit_int_eq_self)

lemma unat_of_nat_u8: "n \<le> 127 \<Longrightarrow> unat (word_of_nat n :: u8) = n"
  by (simp add: unat_of_nat)

lemma store_sample_ok: "samples_ok s \<Longrightarrow> samples_ok (store_sample delta s)"
  by (auto simp: samples_ok_def store_sample_def SAMPLE_COUNT_def sint_add1_u8)

lemma samples_ok_upd:
  "samples_ok (s\<lparr>last_adc_value := a\<rparr>) = samples_ok s"
  "samples_ok (s\<lparr>pps_count := b\<rparr>) = samples_ok s"
  "samples_ok (s\<lparr>sample_window_pos := c\<rparr>) = samples_ok s"
  "samples_ok (s\<lparr>last_timer_val := d\<rparr>) = samples_ok s"
  "samples_ok (s\<lparr>erroneous_delta := e\<rparr>) = samples_ok s"
  "samples_ok (s\<lparr>sample_count := f\<rparr>) = samples_ok s"
  "samples_ok (s\<lparr>gps_status := g\<rparr>) = samples_ok s"
  "samples_ok (s\<lparr>timer_hibits := h\<rparr>) = samples_ok s"
  by (simp_all add: samples_ok_def)

lemma capt_ok: "samples_ok s \<Longrightarrow> samples_ok (TIMER1_CAPT_vect hw s)"
  unfolding TIMER1_CAPT_vect_def Let_def
  by (auto simp: samples_ok_upd intro!: store_sample_ok)

lemma ovf_ok: "samples_ok s \<Longrightarrow> samples_ok (TIMER1_OVF_vect s)"
  by (simp add: TIMER1_OVF_vect_def samples_ok_upd)

lemma gps_ok: "samples_ok s \<Longrightarrow> samples_ok (handleGPS fix3d s)"
  by (simp add: handleGPS_def Let_def samples_ok_def)

lemma writeDacValue_samples:
  "valid_samples (writeDacValue v s) = valid_samples s"
  "sample_buffer (writeDacValue v s) = sample_buffer s"
  by (simp_all add: writeDacValue_def)

lemma window_update_samples:
  "valid_samples (snd (window_update s)) = valid_samples s"
  "sample_buffer (snd (window_update s)) = sample_buffer s"
  by (simp_all add: window_update_def Let_def writeDacValue_samples)

lemma loop_samples:
  "valid_samples (snd (main_loop_body s)) = valid_samples s"
  "sample_buffer (snd (main_loop_body s)) = sample_buffer s"
  by (simp_all add: main_loop_body_def Let_def window_update_samples)

lemma loop_ok: "samples_ok s \<Longrightarrow> samples_ok (snd (main_loop_body s))"
  by (simp add: samples_ok_def loop_samples)

lemma step_ok: "samples_ok s \<Longrightarrow> samples_ok (step e s)"
  by (cases e) (simp_all add: capt_ok ovf_ok gps_ok loop_ok)

lemma run_ok: "samples_ok s \<Longrightarrow> samples_ok (run es s)"
  by (induction es arbitrary: s) (simp_all add: step_ok)

lemma init_ok: "samples_ok (main_init ee)"
  by (simp add: samples_ok_def main_init_def startup_def writeDacValue_def Let_def SAMPLE_COUNT_def)

lemma store_sample_count: "sample_count (store_sample d s) = sample_count s"
  by (simp add: store_sample_def)

lemma capt_close:
  assumes "gps_status s AND 1 = 1" and "sample_window_pos s = 1"
  shows "TIMER1_CAPT_vect hw s =
    (if MAX_DELTA < sint (abs_int (ucast (window_delta hw s))) \<and> 0 \<le> sint (valid_samples s)
     then s\<lparr>last_adc_value := ADC hw, pps_count := pps_count s + 1,
            sample_window_pos := 25,
            last_timer_val := capture_tick (ICR1 hw) (TOV1 hw) (timer_hibits s),
            erroneous_delta := window_delta hw s\<rparr>
     else (store_sample (window_delta hw s)
            (s\<lparr>last_adc_value := ADC hw, pps_count := pps_count s + 1,
               sample_window_pos := 25,
               last_timer_val := capture_tick (ICR1 hw) (TOV1 hw) (timer_hibits s)\<rparr>))
          \<lparr>sample_count := sample_count s + 1\<rparr>)"
  using assms
  by (simp add: TIMER1_CAPT_vect_def Let_def window_delta_def store_sample_count SAMPLE_SECONDS_def)

lemma capt_open:
  assumes "gps_status s AND 1 = 1" and "sample_window_pos s \<noteq> 1"
  shows "TIMER1_CAPT_vect hw s =
     s\<lparr>last_adc_value := ADC hw, pps_count := pps_count s + 1,
       sample_window_pos := sample_window_pos s - 1\<rparr>"
proof -
  have "0 < sample_window_pos s - 1"
    using assms(2) by (simp add: word_greater_zero_iff)
  then show ?thesis using assms(1) by (simp add: TIMER1_CAPT_vect_def Let_def)
qed

lemma store_sample_recent:
  assumes "holds_recent s ds"
  shows "holds_recent (store_sample d s) (ds @ [d])"
proof (cases "length ds < 10")
  case True
  then have v: "sint (valid_samples s) = int (length ds)" "unat (valid_samples s) = length ds"
    using assms by (simp_all add: holds_recent_def SAMPLE_COUNT_def sint_of_nat_u8 unat_of_nat_u8)
  have l: "length (sample_buffer s) = 10" using assms by (simp add: holds_recent_def SAMPLE_COUNT_def)
  have t: "take (length ds) (sample_buffer s) = map ucast ds"
    using assms True by (simp add: holds_recent_def SAMPLE_COUNT_def)
  have "take (Suc (length ds)) ((sample_buffer s)[length ds := ucast d]) = map ucast ds @ [ucast d]"
    using True l t by (simp add: take_Suc_conv_app_nth)
  then show ?thesis
    using True v l assms
    by (simp add: holds_recent_def store_sample_def SAMPLE_COUNT_def)
next
  case False
  then have v: "sint (valid_samples s) = 10"
    using assms by (simp add: holds_recent_def SAMPLE_COUNT_def)
  have l: "length (sample_buffer s) = 10" using assms by (simp add: holds_recent_def SAMPLE_COUNT_def)
  have t: "sample_buffer s = drop (length ds - 10) (map ucast ds)"
    using assms False l by (simp add: holds_recent_def SAMPLE_COUNT_def)
  have "take 9 (drop 1 (sample_buffer s)) = drop 1 (sample_buffer s)" using l by simp
  also have "\<dots> = drop (length ds - 9) (map ucast ds)"
  proof -
    have "Suc (length ds - 10) = length ds - 9" using False by simp
    then show ?thesis by (subst t) (simp add: drop_map)
  qed
  finally show ?thesis
    using False v l
    by (simp add: holds_recent_def store_sample_def SAMPLE_COUNT_def)
qed

lemma store_all_recent:
  "holds_recent s pre \<Longrightarrow> holds_recent (store_all ds s) (pre @ ds)"
proof (induction ds arbitrary: s pre)
  case Nil
  then show ?case by simp
next
  case (Cons d ds)
  from Cons.IH [OF store_sample_recent [OF Cons.prems, of d]]
  show ?case by simp
qed

text \<open>
  Claim C9. After \<open>main_init\<close> and any sequence of interrupts and main loop iterations,
  \<open>valid_samples\<close> is \<open>-1\<close> or lies between 0 and 10, and the buffer has its 10 cells.
  When a window closes with the buffer full and the delta is accepted, the capture
  interrupt leaves \<open>valid_samples\<close> at 10 and the buffer is the old one without its
  first cell, followed by the new delta. More generally, after any sequence of accepted
  deltas stored into an empty buffer, the first \<open>valid_samples\<close> cells are the last 10
  of them (all of them when there are fewer), oldest first.
\<close>

theorem valid_samples_range_and_rotation:
  "(valid_samples (run evs (main_init ee)) = - 1 \<or>
      (0 \<le> sint (valid_samples (run evs (main_init ee))) \<and>
       sint (valid_samples (run evs (main_init ee))) \<le> 10)) \<and>
   length (sample_buffer (run evs (main_init ee))) = 10 \<and>
   (gps_status s AND 1 = 1 \<and> sample_window_pos s = 1 \<and> valid_samples s = 10 \<and>
    length (sample_buffer s) = 10 \<and>
    sint (abs_int (ucast (window_delta hw s))) \<le> MAX_DELTA \<longrightarrow>
      valid_samples (TIMER1_CAPT_vect hw s) = 10 \<and>
      sample_buffer (TIMER1_CAPT_vect hw s) =
        drop 1 (sample_buffer s) @ [ucast (window_delta hw s)]) \<and>
   (valid_samples s = 0 \<and> length (sample_buffer s) = 10 \<longrightarrow>
      valid_samples (store_all ds s) = word_of_nat (min 10 (length ds)) \<and>
      take (min 10 (length ds)) (sample_buffer (store_all ds s)) =
        drop (length ds - 10) (map ucast ds))"
proof -
  have inv: "samples_ok (run evs (main_init ee))"
    by (rule run_ok [OF init_ok])
  have rot: "valid_samples (TIMER1_CAPT_vect hw s) = 10 \<and>
      sample_buffer (TIMER1_CAPT_vect hw s) =
        drop 1 (sample_buffer s) @ [ucast (window_delta hw s)]"
    if "gps_status s AND 1 = 1" "sample_window_pos s = 1" "valid_samples s = 10"
       "length (sample_buffer s) = 10"
       "sint (abs_int (ucast (window_delta hw s))) \<le> MAX_DELTA"
    using that by (simp add: capt_close [OF that(1,2)] store_sample_def SAMPLE_COUNT_def)
  have rec: "valid_samples (store_all ds s) = word_of_nat (min 10 (length ds)) \<and>
      take (min 10 (length ds)) (sample_buffer (store_all ds s)) =
        drop (length ds - 10) (map ucast ds)"
    if "valid_samples s = 0" "length (sample_buffer s) = 10"
  proof -
    have "holds_recent s []" using that by (simp add: holds_recent_def SAMPLE_COUNT_def)
    from store_all_recent [OF this, of ds] show ?thesis
      by (simp add: holds_recent_def SAMPLE_COUNT_def)
  qed
  from inv have i: "(valid_samples (run evs (main_init ee)) = - 1 \<or>
      (0 \<le> sint (valid_samples (run evs (main_init ee))) \<and>
       sint (valid_samples (run evs (main_init ee))) \<le> 10)) \<and>
      length (sample_buffer (run evs (main_init ee))) = 10"
    by (simp add: samples_ok_def SAMPLE_COUNT_def)
  from i rot rec show ?thesis by blast
qed

theorem valid_samples_range_and_rotation_witness:
  "valid_samples (run [Gps True, Gps False] (main_init 0x8000)) = - 1 \<and>
   window_delta \<lparr>ICR1 = 0xB28B, TOV1 = False, ADC = 512\<rparr> full_buffer = 11 \<and>
   sample_buffer (TIMER1_CAPT_vect \<lparr>ICR1 = 0xB28B, TOV1 = False, ADC = 512\<rparr> full_buffer) =
     [2, 3, 4, 5, 6, 7, 8, 9, 10, 11] \<and>
   take 10 (sample_buffer (store_all [1, 2, 3, 4, 5, 6, 7, 8, 9, 10, 11, 12]
       ((main_init 0x8000)\<lparr>valid_samples := 0\<rparr>))) = [3, 4, 5, 6, 7, 8, 9, 10, 11, 12]"
proof -
  let ?hw = "\<lparr>ICR1 = 0xB28B, TOV1 = False, ADC = 512\<rparr>"
  let ?s = "(main_init 0x8000)\<lparr>valid_samples := 0\<rparr>"
  note t = valid_samples_range_and_rotation
    [of "[Gps True, Gps False]" "0x8000" full_buffer ?hw "[]"]
  note u = valid_samples_range_and_rotation
    [of "[]" "0x8000" ?s ?hw "[1, 2, 3, 4, 5, 6, 7, 8, 9, 10, 11, 12]"]
  have d: "window_delta ?hw full_buffer = 11"
    by (simp add: window_delta_def full_buffer_def main_init_def startup_def writeDacValue_def
        Let_def capture_tick_def SAMPLE_SECONDS_def NOMINAL_CLOCK_def)
  have a: "sint (abs_int (ucast (window_delta ?hw full_buffer))) \<le> MAX_DELTA"
    by (simp add: d abs_int_def MAX_DELTA_def)
  have f: "gps_status full_buffer AND 1 = 1" "sample_window_pos full_buffer = 1"
    "valid_samples full_buffer = 10" "length (sample_buffer full_buffer) = 10"
    "sample_buffer full_buffer = [1, 2, 3, 4, 5, 6, 7, 8, 9, 10]"
    by (simp_all add: full_buffer_def)
  have r: "sample_buffer (TIMER1_CAPT_vect ?hw full_buffer) = [2, 3, 4, 5, 6, 7, 8, 9, 10, 11]"
    using t f a d by simp
  have g: "valid_samples ?s = 0" "length (sample_buffer ?s) = 10"
    by (simp_all add: main_init_def startup_def writeDacValue_def Let_def SAMPLE_COUNT_def)
  have m: "min 10 (length [1, 2, 3, 4, 5, 6, 7, 8, 9, 10, 11, 12 :: u32]) = 10" by simp
  have e: "drop (length [1, 2, 3, 4, 5, 6, 7, 8, 9, 10, 11, 12 :: u32] - 10)
             (map ucast [1, 2, 3, 4, 5, 6, 7, 8, 9, 10, 11, 12 :: u32]) =
           [3, 4, 5, 6, 7, 8, 9, 10, 11, 12 :: u16]" by simp
  have k: "take 10 (sample_buffer (store_all [1, 2, 3, 4, 5, 6, 7, 8, 9, 10, 11, 12] ?s)) =
      [3, 4, 5, 6, 7, 8, 9, 10, 11, 12]"
    using u [THEN conjunct2, THEN conjunct2, THEN conjunct2, THEN mp, OF conjI [OF g],
        THEN conjunct2]
    unfolding m e .
  have v: "valid_samples (run [Gps True, Gps False] (main_init 0x8000)) = - 1"
    by (simp add: handleGPS_def main_init_def startup_def writeDacValue_def Let_def)
  from v d r k show ?thesis by (intro conjI)
qed

section \<open>C arithmetic read as integers\<close>

lemma sint_wi_long: "fits_long x \<Longrightarrow> sint (word_of_int x :: u32) = x"
  by (simp add: fits_long_def sint_sbintrunc' signed_take_bit_int_eq_self)

lemma sint_wi_int: "fits_int x \<Longrightarrow> sint (word_of_int x :: u16) = x"
  by (simp add: fits_int_def sint_sbintrunc' signed_take_bit_int_eq_self)

lemma fits_long_sint: "fits_long (sint (w::u32))"
  using sint_ge [of w] sint_lt [of w] by (simp add: fits_long_def)

lemma fits_int_sint: "fits_int (sint (w::u16))"
  using sint_ge [of w] sint_lt [of w] by (simp add: fits_int_def)

lemma sint_add_long: "fits_long (sint a + sint b) \<Longrightarrow> sint (a + b :: u32) = sint a + sint b"
  by (simp add: fits_long_def sint_word_ariths signed_take_bit_int_eq_self)

lemma sint_sub_long: "fits_long (sint a - sint b) \<Longrightarrow> sint (a - b :: u32) = sint a - sint b"
  by (simp add: fits_long_def sint_word_ariths signed_take_bit_int_eq_self)

lemma sint_mult_long: "fits_long (sint a * sint b) \<Longrightarrow> sint (a * b :: u32) = sint a * sint b"
  by (simp add: fits_long_def sint_word_ariths signed_take_bit_int_eq_self)

lemma sint_long_div: "fits_long (sint a sdiv sint b) \<Longrightarrow> sint (long_div a b) = sint a sdiv sint b"
  by (simp add: long_div_def sint_wi_long)

lemma sint_int_div: "fits_int (sint a sdiv sint b) \<Longrightarrow> sint (int_div a b) = sint a sdiv sint b"
  by (simp add: int_div_def sint_wi_int)

lemma sint_scast_up: "sint (scast (x::u16) :: u32) = sint x"
  by (simp add: sint_up_scast is_up)

lemma sint_ucast_down: "fits_int (sint (x::u32)) \<Longrightarrow> sint (ucast x :: u16) = sint x"
proof -
  assume a: "fits_int (sint x)"
  have "(ucast :: u32 \<Rightarrow> u16) = scast"
    by (rule down_cast_same) (simp add: is_down)
  then have "(ucast x :: u16) = word_of_int (sint x)"
    by (simp only: scast_eq)
  then show ?thesis using a by (simp only: sint_wi_int)
qed

lemma sdiv_pos:
  fixes a c :: int
  assumes "0 < c"
  shows "(0 \<le> a \<longrightarrow> 0 \<le> a sdiv c \<and> a sdiv c \<le> a) \<and>
         (a \<le> 0 \<longrightarrow> a \<le> a sdiv c \<and> a sdiv c \<le> 0)"
proof -
  have p: "0 \<le> a sdiv c \<and> a sdiv c \<le> a" if "0 \<le> a"
  proof -
    have "a sdiv c = a div c" using that assms by (simp add: signed_divide_int_def sgn_if)
    moreover have "a div c \<le> a"
      using that int_div_le_self [of a c] by (cases "a = 0") simp_all
    moreover have "0 \<le> a div c" using that assms by (simp add: pos_imp_zdiv_nonneg_iff)
    ultimately show ?thesis by simp
  qed
  have n: "a \<le> a sdiv c \<and> a sdiv c \<le> 0" if "a \<le> 0"
  proof -
    have e: "a sdiv c = - ((- a) div c)" using that assms by (simp add: signed_divide_int_def sgn_if)
    have "(- a) div c \<le> - a"
      using that int_div_le_self [of "- a" c] by (cases "a = 0") simp_all
    moreover have "0 \<le> (- a) div c" using that assms by (simp add: pos_imp_zdiv_nonneg_iff)
    ultimately show ?thesis using e by simp
  qed
  from p n show ?thesis by blast
qed

lemma fits_long_sdiv: "0 < c \<Longrightarrow> fits_long a \<Longrightarrow> fits_long (a sdiv c)"
  using sdiv_pos [of c a] by (cases "0 \<le> a") (auto simp: fits_long_def)

lemma fits_int_sdiv: "0 < c \<Longrightarrow> fits_int a \<Longrightarrow> fits_int (a sdiv c)"
  using sdiv_pos [of c a] by (cases "0 \<le> a") (auto simp: fits_int_def)

lemma sdiv_mult_cancel: "0 < c \<Longrightarrow> (a * c) sdiv c = (a::int)"
  by (simp add: signed_divide_int_def sgn_mult abs_mult mult_sgn_abs)

section \<open>Restoring the trim at boot\<close>











section \<open>Outlier rejection\<close>

lemma sint_neg_int: "sint (x::u16) \<noteq> - 32768 \<Longrightarrow> sint (- x) = - sint x"
proof -
  assume a: "sint x \<noteq> - 32768"
  have "- 32768 \<le> sint x" "sint x < 32768" using sint_ge [of x] sint_lt [of x] by simp_all
  with a show ?thesis
    by (simp add: sint_word_minus signed_take_bit_int_eq_self)
qed

lemma sint_abs_int:
  fixes d :: u32
  assumes "\<bar>sint d\<bar> \<le> 32767"
  shows "sint (abs_int (ucast d)) = \<bar>sint d\<bar>"
proof -
  have f: "fits_int (sint d)" using assms unfolding fits_int_def by linarith
  have e: "sint (ucast d :: u16) = sint d" by (rule sint_ucast_down [OF f])
  have n: "sint (ucast d :: u16) \<noteq> - 32768" using assms e by simp
  show ?thesis
    unfolding abs_int_def using sint_neg_int [OF n] e by simp
qed

text \<open>
  Claim C4, as the code has it. A PPS edge arrives while locked with
  \<open>sample_window_pos = 1\<close>, so it closes the window; \<open>d\<close> is the window's delta and
  \<open>s3\<close> the state with the bookkeeping every closing edge does.

  With \<open>valid_samples\<close> at 0 or more and \<open>2500 < |d| \<le> 32767\<close> the interrupt stores \<open>d\<close>
  in \<open>erroneous_delta\<close> and does nothing else: \<open>sample_buffer\<close>, \<open>valid_samples\<close>,
  \<open>sample_count\<close> and \<open>total_error\<close> stay as they are, and the main loop that follows
  reports the delta, clears \<open>erroneous_delta\<close> and leaves at line 593, without touching
  \<open>total_error\<close>. The upper bound 32767 is part of the statement: it is the range of
  the 16-bit \<^verbatim>\<open>int\<close> in which the \<^verbatim>\<open>abs\<close> of line 259 takes the absolute value. With
  \<open>|d| \<le> 2500\<close> the delta is accepted: it is stored as it is, at index \<open>valid_samples\<close>
  when the buffer is not full, and \<open>erroneous_delta\<close> is not written. So 2500 is
  accepted and 2501 rejected.

  With \<open>valid_samples = -1\<close> no delta is rejected, whatever its size: the closing edge
  sets \<open>valid_samples\<close> to 0, counts the sample and leaves \<open>erroneous_delta\<close> alone.
\<close>

theorem outlier_rejection:
  assumes "gps_status s AND 1 = 1" and "sample_window_pos s = 1"
  shows
   "(let d = window_delta hw s;
         s3 = s\<lparr>last_adc_value := ADC hw, pps_count := pps_count s + 1,
                sample_window_pos := 25,
                last_timer_val := capture_tick (ICR1 hw) (TOV1 hw) (timer_hibits s)\<rparr>
     in (0 \<le> sint (valid_samples s) \<and> MAX_DELTA < \<bar>sint d\<bar> \<and> \<bar>sint d\<bar> \<le> 32767 \<longrightarrow>
           TIMER1_CAPT_vect hw s = s3\<lparr>erroneous_delta := d\<rparr> \<and>
           (last_pps_count s = pps_count s \<longrightarrow>
              main_loop_body (TIMER1_CAPT_vect hw s) =
                (Erroneous d,
                 s3\<lparr>gps_status := gps_status s OR 2, last_pps_count := pps_count s + 1,
                    erroneous_delta := 0\<rparr>))) \<and>
        (0 \<le> sint (valid_samples s) \<and> \<bar>sint d\<bar> \<le> MAX_DELTA \<longrightarrow>
           TIMER1_CAPT_vect hw s = (store_sample d s3)\<lparr>sample_count := sample_count s + 1\<rparr> \<and>
           sint (ucast d :: u16) = sint d \<and>
           (sint (valid_samples s) < 10 \<longrightarrow>
              TIMER1_CAPT_vect hw s =
                s3\<lparr>sample_buffer := (sample_buffer s)[unat (valid_samples s) := ucast d],
                   valid_samples := valid_samples s + 1,
                   sample_count := sample_count s + 1\<rparr>)) \<and>
        (valid_samples s = - 1 \<longrightarrow>
           TIMER1_CAPT_vect hw s =
             s3\<lparr>valid_samples := 0, sample_count := sample_count s + 1\<rparr>))"
proof -
  define d where "d = window_delta hw s"
  define s3 where "s3 = s\<lparr>last_adc_value := ADC hw, pps_count := pps_count s + 1,
                sample_window_pos := 25,
                last_timer_val := capture_tick (ICR1 hw) (TOV1 hw) (timer_hibits s)\<rparr>"
  note cc = capt_close [OF assms, of hw, folded d_def s3_def]
  have rej: "TIMER1_CAPT_vect hw s = s3\<lparr>erroneous_delta := d\<rparr> \<and>
           (last_pps_count s = pps_count s \<longrightarrow>
              main_loop_body (TIMER1_CAPT_vect hw s) =
                (Erroneous d,
                 s3\<lparr>gps_status := gps_status s OR 2, last_pps_count := pps_count s + 1,
                    erroneous_delta := 0\<rparr>))"
    if v: "0 \<le> sint (valid_samples s)" and big: "MAX_DELTA < \<bar>sint d\<bar>" and r: "\<bar>sint d\<bar> \<le> 32767"
  proof -
    have a: "sint (abs_int (ucast d)) = \<bar>sint d\<bar>" by (rule sint_abs_int [OF r])
    have i: "TIMER1_CAPT_vect hw s = s3\<lparr>erroneous_delta := d\<rparr>"
      using v big by (simp add: cc a)
    have "sint d \<noteq> 0" using big by (simp add: MAX_DELTA_def)
    then have nz: "d \<noteq> 0" by auto
    have "main_loop_body (s3\<lparr>erroneous_delta := d\<rparr>) =
                (Erroneous d,
                 s3\<lparr>gps_status := gps_status s OR 2, last_pps_count := pps_count s + 1,
                    erroneous_delta := 0\<rparr>)"
      if "last_pps_count s = pps_count s"
      using that nz by (simp add: main_loop_body_def Let_def s3_def)
    with i show ?thesis by simp
  qed
  have acc: "TIMER1_CAPT_vect hw s = (store_sample d s3)\<lparr>sample_count := sample_count s + 1\<rparr> \<and>
           sint (ucast d :: u16) = sint d \<and>
           (sint (valid_samples s) < 10 \<longrightarrow>
              TIMER1_CAPT_vect hw s =
                s3\<lparr>sample_buffer := (sample_buffer s)[unat (valid_samples s) := ucast d],
                   valid_samples := valid_samples s + 1,
                   sample_count := sample_count s + 1\<rparr>)"
    if v: "0 \<le> sint (valid_samples s)" and small: "\<bar>sint d\<bar> \<le> MAX_DELTA"
  proof -
    have r: "\<bar>sint d\<bar> \<le> 32767" using small by (simp add: MAX_DELTA_def)
    have a: "sint (abs_int (ucast d)) = \<bar>sint d\<bar>" by (rule sint_abs_int [OF r])
    have i: "TIMER1_CAPT_vect hw s = (store_sample d s3)\<lparr>sample_count := sample_count s + 1\<rparr>"
      using small by (simp add: cc a)
    have f: "fits_int (sint d)" using r unfolding fits_int_def by linarith
    have j: "sint (ucast d :: u16) = sint d" by (rule sint_ucast_down [OF f])
    have k: "(store_sample d s3)\<lparr>sample_count := sample_count s + 1\<rparr> =
                s3\<lparr>sample_buffer := (sample_buffer s)[unat (valid_samples s) := ucast d],
                   valid_samples := valid_samples s + 1,
                   sample_count := sample_count s + 1\<rparr>"
      if "sint (valid_samples s) < 10"
      using that v by (simp add: store_sample_def s3_def SAMPLE_COUNT_def)
    from i j k show ?thesis by simp
  qed
  have skip: "TIMER1_CAPT_vect hw s = s3\<lparr>valid_samples := 0, sample_count := sample_count s + 1\<rparr>"
    if v: "valid_samples s = - 1"
    using v by (simp add: cc store_sample_def s3_def)
  from rej acc skip show ?thesis
    unfolding Let_def d_def [symmetric] s3_def [symmetric] by blast
qed

lemma window_closing_fields:
  "gps_status window_closing = 1" "sample_window_pos window_closing = 1"
  "valid_samples window_closing = - 1" "timer_hibits window_closing = 0x0EE6"
  "last_timer_val window_closing = 0" "erroneous_delta window_closing = 0"
  "sample_count window_closing = 0" "pps_count window_closing = 0"
  "last_pps_count window_closing = 0" "total_error window_closing = 0"
  "sample_buffer window_closing = [0, 0, 0, 0, 0, 0, 0, 0, 0, 0]"
  by (simp_all add: window_closing_def boot_defs eval_nat_numeral)

lemma window_delta_eval:
  "window_delta \<lparr>ICR1 = 0xBC44, TOV1 = False, ADC = 512\<rparr> (window_closing\<lparr>valid_samples := 0\<rparr>) = 2500"
  "window_delta \<lparr>ICR1 = 0xBC45, TOV1 = False, ADC = 512\<rparr> (window_closing\<lparr>valid_samples := 0\<rparr>) = 2501"
  by (simp_all add: window_delta_def capture_tick_def window_closing_fields
      SAMPLE_SECONDS_def NOMINAL_CLOCK_def)

theorem outlier_rejection_witness:
  "window_delta \<lparr>ICR1 = 0xBC44, TOV1 = False, ADC = 512\<rparr> (window_closing\<lparr>valid_samples := 0\<rparr>) = 2500 \<and>
   valid_samples (TIMER1_CAPT_vect \<lparr>ICR1 = 0xBC44, TOV1 = False, ADC = 512\<rparr>
      (window_closing\<lparr>valid_samples := 0\<rparr>)) = 1 \<and>
   sample_buffer (TIMER1_CAPT_vect \<lparr>ICR1 = 0xBC44, TOV1 = False, ADC = 512\<rparr>
      (window_closing\<lparr>valid_samples := 0\<rparr>)) = [2500, 0, 0, 0, 0, 0, 0, 0, 0, 0] \<and>
   erroneous_delta (TIMER1_CAPT_vect \<lparr>ICR1 = 0xBC44, TOV1 = False, ADC = 512\<rparr>
      (window_closing\<lparr>valid_samples := 0\<rparr>)) = 0 \<and>
   window_delta \<lparr>ICR1 = 0xBC45, TOV1 = False, ADC = 512\<rparr> (window_closing\<lparr>valid_samples := 0\<rparr>) = 2501 \<and>
   valid_samples (TIMER1_CAPT_vect \<lparr>ICR1 = 0xBC45, TOV1 = False, ADC = 512\<rparr>
      (window_closing\<lparr>valid_samples := 0\<rparr>)) = 0 \<and>
   sample_buffer (TIMER1_CAPT_vect \<lparr>ICR1 = 0xBC45, TOV1 = False, ADC = 512\<rparr>
      (window_closing\<lparr>valid_samples := 0\<rparr>)) = [0, 0, 0, 0, 0, 0, 0, 0, 0, 0] \<and>
   erroneous_delta (TIMER1_CAPT_vect \<lparr>ICR1 = 0xBC45, TOV1 = False, ADC = 512\<rparr>
      (window_closing\<lparr>valid_samples := 0\<rparr>)) = 2501 \<and>
   fst (main_loop_body (TIMER1_CAPT_vect \<lparr>ICR1 = 0xBC45, TOV1 = False, ADC = 512\<rparr>
      (window_closing\<lparr>valid_samples := 0\<rparr>))) = Erroneous 2501 \<and>
   total_error (snd (main_loop_body (TIMER1_CAPT_vect \<lparr>ICR1 = 0xBC45, TOV1 = False, ADC = 512\<rparr>
      (window_closing\<lparr>valid_samples := 0\<rparr>)))) = 0"
proof -
  let ?s = "window_closing\<lparr>valid_samples := 0\<rparr>"
  let ?a = "\<lparr>ICR1 = 0xBC44, TOV1 = False, ADC = 512\<rparr>"
  let ?b = "\<lparr>ICR1 = 0xBC45, TOV1 = False, ADC = 512\<rparr>"
  have l: "gps_status ?s AND 1 = 1" and c: "sample_window_pos ?s = 1"
    by (simp_all add: window_closing_fields)
  have pa: "0 \<le> sint (valid_samples ?s) \<and> \<bar>sint (2500::u32)\<bar> \<le> MAX_DELTA"
    by (simp add: MAX_DELTA_def)
  have qa: "sint (valid_samples ?s) < 10" by simp
  have pb: "0 \<le> sint (valid_samples ?s) \<and> MAX_DELTA < \<bar>sint (2501::u32)\<bar> \<and>
            \<bar>sint (2501::u32)\<bar> \<le> 32767"
    by (simp add: MAX_DELTA_def)
  have qb: "last_pps_count ?s = pps_count ?s" by (simp add: window_closing_fields)
  note ta = outlier_rejection [OF l c, of ?a, unfolded Let_def window_delta_eval,
      THEN conjunct2, THEN conjunct1, THEN mp, OF pa, THEN conjunct2, THEN conjunct2,
      THEN mp, OF qa]
  note tb = outlier_rejection [OF l c, of ?b, unfolded Let_def window_delta_eval,
      THEN conjunct1, THEN mp, OF pb]
  have a: "TIMER1_CAPT_vect ?a ?s =
     ?s\<lparr>last_adc_value := 512, pps_count := 1, sample_window_pos := 25,
         last_timer_val := capture_tick 0xBC44 False 0x0EE6,
         sample_buffer := [2500, 0, 0, 0, 0, 0, 0, 0, 0, 0],
         valid_samples := 1, sample_count := 1\<rparr>"
    using ta by (simp add: window_closing_fields)
  have b: "TIMER1_CAPT_vect ?b ?s =
     ?s\<lparr>last_adc_value := 512, pps_count := 1, sample_window_pos := 25,
         last_timer_val := capture_tick 0xBC45 False 0x0EE6, erroneous_delta := 2501\<rparr>"
    using tb [THEN conjunct1] by (simp add: window_closing_fields)
  have m: "main_loop_body (TIMER1_CAPT_vect ?b ?s) =
     (Erroneous 2501,
      ?s\<lparr>last_adc_value := 512, pps_count := 1, sample_window_pos := 25,
         last_timer_val := capture_tick 0xBC45 False 0x0EE6,
         gps_status := 3, last_pps_count := 1, erroneous_delta := 0\<rparr>)"
    using tb [THEN conjunct2, THEN mp, OF qb] by (simp add: window_closing_fields)
  have a1: "valid_samples (TIMER1_CAPT_vect ?a ?s) = 1"
    and a2: "sample_buffer (TIMER1_CAPT_vect ?a ?s) = [2500, 0, 0, 0, 0, 0, 0, 0, 0, 0]"
    and a3: "erroneous_delta (TIMER1_CAPT_vect ?a ?s) = 0"
    by (simp_all add: a window_closing_fields)
  have b1: "valid_samples (TIMER1_CAPT_vect ?b ?s) = 0"
    and b2: "sample_buffer (TIMER1_CAPT_vect ?b ?s) = [0, 0, 0, 0, 0, 0, 0, 0, 0, 0]"
    and b3: "erroneous_delta (TIMER1_CAPT_vect ?b ?s) = 2501"
    by (simp_all add: b window_closing_fields)
  have m1: "fst (main_loop_body (TIMER1_CAPT_vect ?b ?s)) = Erroneous 2501"
    and m2: "total_error (snd (main_loop_body (TIMER1_CAPT_vect ?b ?s))) = 0"
    by (simp_all add: m window_closing_fields)
  from window_delta_eval(1,2) a1 a2 a3 b1 b2 b3 m1 m2 show ?thesis by blast
qed

text \<open>
  The claim as stated fails where it says that rejection also holds when
  \<open>valid_samples\<close> is \<open>-1\<close>. In the run below the fix is gained, which leaves the skip
  marker armed, and the warm-up window closes with a delta of 3000. The delta is not
  stored in \<open>erroneous_delta\<close>, the skip marker is used up and \<open>sample_count\<close> advances.
\<close>

lemma warm_up_closing_reached: "run warm_up_events (main_init 0x8000) = warm_up_closing"
proof -
  have "run warm_up_events (main_init 0x8000) =
      run (replicate 166 Overflow)
        (run (concat (replicate 24 (second_of 152 0))) (handleGPS True (main_init 0x8000)))"
    unfolding warm_up_events_def by (simp only: run.simps step.simps run_append)
  also have "\<dots> = warm_up_closing"
    unfolding boot_state warm_up_closing_def
    by (simp add: run_overflows edge_defs)
  finally show ?thesis .
qed

theorem outlier_during_warmup_counterexample:
  "run warm_up_events (main_init 0x8000) = warm_up_closing \<and>
   gps_status warm_up_closing AND 1 = 1 \<and>
   sample_window_pos warm_up_closing = 1 \<and>
   valid_samples warm_up_closing = - 1 \<and>
   window_delta \<lparr>ICR1 = 0xBE38, TOV1 = False, ADC = 512\<rparr> warm_up_closing = 3000 \<and>
   erroneous_delta (TIMER1_CAPT_vect \<lparr>ICR1 = 0xBE38, TOV1 = False, ADC = 512\<rparr> warm_up_closing) = 0 \<and>
   valid_samples (TIMER1_CAPT_vect \<lparr>ICR1 = 0xBE38, TOV1 = False, ADC = 512\<rparr> warm_up_closing) = 0 \<and>
   sample_count (TIMER1_CAPT_vect \<lparr>ICR1 = 0xBE38, TOV1 = False, ADC = 512\<rparr> warm_up_closing) = 1"
proof -
  have "gps_status warm_up_closing AND 1 = 1"
    "sample_window_pos warm_up_closing = 1"
    "valid_samples warm_up_closing = - 1"
    "window_delta \<lparr>ICR1 = 0xBE38, TOV1 = False, ADC = 512\<rparr> warm_up_closing = 3000"
    by (simp_all add: warm_up_closing_def window_delta_def capture_tick_def
        SAMPLE_SECONDS_def NOMINAL_CLOCK_def)
  moreover have
    "erroneous_delta (TIMER1_CAPT_vect \<lparr>ICR1 = 0xBE38, TOV1 = False, ADC = 512\<rparr> warm_up_closing) = 0"
    "valid_samples (TIMER1_CAPT_vect \<lparr>ICR1 = 0xBE38, TOV1 = False, ADC = 512\<rparr> warm_up_closing) = 0"
    "sample_count (TIMER1_CAPT_vect \<lparr>ICR1 = 0xBE38, TOV1 = False, ADC = 512\<rparr> warm_up_closing) = 1"
    by (simp_all add: warm_up_closing_def TIMER1_CAPT_vect_def Let_def
      SAMPLE_SECONDS_def NOMINAL_CLOCK_def MAX_DELTA_def store_sample_def
      capture_tick_def abs_int_def)
  ultimately show ?thesis using warm_up_closing_reached by blast
qed

text \<open>
  Beyond 32767 the statement above says nothing, and the bound cannot be dropped from
  it: line 259 hands the \<^verbatim>\<open>long\<close> delta to a 16-bit \<^verbatim>\<open>abs\<close>, which sees its low half. In
  the run below the first window after the warm-up is 65636 ticks too long, with
  \<open>valid_samples = 0\<close>; the test sees 100, the delta is accepted and stored as 100, and
  \<open>erroneous_delta\<close> is not written.
\<close>

lemma wide_delta_accepted:
  "run wide_delta_events (main_init 0x8000) = wide_delta_stored \<and>
   last_timer_val wide_delta_stored - last_timer_val after_warm_up
     - word_of_nat SAMPLE_SECONDS * NOMINAL_CLOCK = 65636 \<and>
   sample_buffer wide_delta_stored = [100, 0, 0, 0, 0, 0, 0, 0, 0, 0] \<and>
   valid_samples wide_delta_stored = 1 \<and>
   erroneous_delta wide_delta_stored = 0"
proof -
  have "run wide_delta_events (main_init 0x8000) =
      run (concat (replicate 24 (second_of 152 0)) @ edge_of 168 0x6564)
        (run (window_of 166 0xB280) (handleGPS True (main_init 0x8000)))"
    unfolding wide_delta_events_def by (simp only: run.simps step.simps run_append)
  also have "\<dots> = wide_delta_stored"
    unfolding warm_up_run after_warm_up_def wide_delta_stored_def run_append
    by (simp add: edge_defs)
  finally have r: "run wide_delta_events (main_init 0x8000) = wide_delta_stored" .
  have "last_timer_val wide_delta_stored - last_timer_val after_warm_up
     - word_of_nat SAMPLE_SECONDS * NOMINAL_CLOCK = 65636"
    "sample_buffer wide_delta_stored = [100, 0, 0, 0, 0, 0, 0, 0, 0, 0]"
    "valid_samples wide_delta_stored = 1"
    "erroneous_delta wide_delta_stored = 0"
    by (simp_all add: wide_delta_stored_def after_warm_up_def SAMPLE_SECONDS_def NOMINAL_CLOCK_def)
  with r show ?thesis by simp
qed

section \<open>The discipline controller\<close>

lemma sum_samples_wi: "sum_samples xs acc = acc + word_of_int (sum_list (map sint xs))"
proof (induction xs arbitrary: acc)
  case Nil
  then show ?case by simp
next
  case (Cons x xs)
  have "(scast x :: u32) = word_of_int (sint x)" by (rule scast_eq)
  then show ?case by (simp add: Cons.IH)
qed

lemma sum_sint_bound: "\<bar>sum_list (map sint (xs :: u16 list))\<bar> \<le> 32768 * int (length xs)"
proof (induction xs)
  case Nil
  then show ?case by simp
next
  case (Cons x xs)
  have "- 32768 \<le> sint x" "sint x < 32768" using sint_ge [of x] sint_lt [of x] by simp_all
  with Cons show ?case by simp
qed

lemma buffer_sum_bound:
  assumes "sint (valid_samples s) \<le> 10"
  shows "\<bar>buffer_sum s\<bar> \<le> 327680"
proof -
  let ?xs = "take (nat (sint (valid_samples s))) (sample_buffer s)"
  have "length ?xs \<le> 10" using assms by simp
  then have "32768 * int (length ?xs) \<le> 327680" by simp
  with sum_sint_bound [of ?xs] show ?thesis unfolding buffer_sum_def by linarith
qed

lemma sint_numerals:
  "sint (10 :: u32) = 10" "sint (1000 :: u32) = 1000" "sint (512 :: u32) = 512"
  "sint (10000 :: u32) = 10000" "sint (100 :: u32) = 100" "sint (14 :: u16) = 14"
  "sint (25 :: u32) = 25" "sint K_P = 31400" "sint K_I = 13" "sint DAC_SIGN = - 1"
  "(word_of_nat SAMPLE_COUNT :: u32) = 10" "(word_of_nat SAMPLE_SECONDS :: u32) = 25"
  by (simp_all add: K_P_def K_I_def DAC_SIGN_def SAMPLE_COUNT_def SAMPLE_SECONDS_def)

lemma window_drift:
  fixes s :: gpsdo
  defines "drift \<equiv> long_div (sum_samples (take (nat (sint (valid_samples s))) (sample_buffer s)) 0 * 10)
                     (word_of_nat SAMPLE_COUNT)"
  assumes le: "sint (valid_samples s) \<le> 10"
  shows "sint drift = exact_drift s" and "exact_drift s = buffer_sum s"
proof -
  let ?total = "sum_samples (take (nat (sint (valid_samples s))) (sample_buffer s)) 0"
  note b = buffer_sum_bound [OF le]
  have t: "?total = word_of_int (buffer_sum s)"
    by (simp add: sum_samples_wi buffer_sum_def)
  have f0: "fits_long (buffer_sum s)" using b unfolding fits_long_def by linarith
  have st: "sint ?total = buffer_sum s" unfolding t by (rule sint_wi_long [OF f0])
  have f1: "fits_long (buffer_sum s * 10)" using b unfolding fits_long_def by linarith
  have sm: "sint (?total * 10) = buffer_sum s * 10"
    using sint_mult_long [of ?total 10] f1 by (simp only: st sint_numerals)
  have f2: "fits_long ((buffer_sum s * 10) sdiv 10)"
    by (rule fits_long_sdiv [OF _ f1]) simp
  show "sint drift = exact_drift s"
    unfolding drift_def exact_drift_def
    using sint_long_div [of "?total * 10" 10] f2 by (simp only: sm sint_numerals)
  show "exact_drift s = buffer_sum s"
    unfolding exact_drift_def by (rule sdiv_mult_cancel) simp
qed

lemma exact_error_bound:
  assumes "sint (valid_samples s) \<le> 10"
  shows "\<bar>exact_error s\<bar> \<le> 3310000"
proof -
  have d: "\<bar>exact_drift s\<bar> \<le> 327680"
    using buffer_sum_bound [OF assms] window_drift(2) [OF assms] by simp
  have "fits_int (sint (window_phase_error s) sdiv 14)"
    by (rule fits_int_sdiv [OF _ fits_int_sint]) simp
  then have "\<bar>sint (window_phase_error s) sdiv 14\<bar> \<le> 32768"
    unfolding fits_int_def by linarith
  with d show ?thesis unfolding exact_error_def by linarith
qed

text \<open>
  Claim C1, as the code has it. A window update that starts with at least one valid
  sample, and in which no \<^verbatim>\<open>long\<close> result of lines 683 to 686 overflows, computes
  in exact integer arithmetic, every \<^verbatim>\<open>/\<close> truncating towards zero:
  \<open>sample_drift\<close> is the sum of the valid samples times 10 over 10; \<open>current_error\<close> is
  10 times \<open>sample_drift\<close> plus \<open>sample_phase_error / 14\<close>; \<open>total_error\<close> grows by
  \<open>current_error\<close>; \<open>adj_val\<close> is \<open>-1 * (current_error * 31400 + total_error * 13) /
  10000\<close> with the new \<open>total_error\<close>; \<open>trim_percent\<close> shrinks by \<open>adj_val\<close>; and the word
  handed to \<open>writeDacValue\<close> is \<open>trim_percent / 100\<close>, truncated towards zero, plus
  \<open>0x8000\<close>, reduced modulo \<open>2^16\<close>.
\<close>

theorem window_update_controller:
  assumes pos: "0 < sint (valid_samples s)" and le: "sint (valid_samples s) \<le> 10"
    and no: "no_overflow s"
  shows "case window_update s of
           (Updated l, s') \<Rightarrow>
              sample_phase_error l = window_phase_error s \<and>
              sint (sample_drift l) = exact_drift s \<and>
              sint (current_error l) = exact_error s \<and>
              sint (total_error s') = exact_total s \<and>
              sint (adj_val l) = exact_adj s \<and>
              sint (trim_percent s') = exact_trim s \<and>
              trim_value l = word_of_int (exact_dac s) \<and>
              last_dac_value s' = trim_value l
         | _ \<Rightarrow> False"
proof -
  define spe where "spe = window_phase_error s"
  define drift where
    "drift = long_div (sum_samples (take (nat (sint (valid_samples s))) (sample_buffer s)) 0 * 10)
                     (word_of_nat SAMPLE_COUNT)"
  define ph where "ph = (scast (int_div spe 14) :: u32)"
  define cur where "cur = 10 * drift + ph"
  define te where "te = total_error s + cur"
  define adj where "adj = long_div (DAC_SIGN * (cur * K_P + te * K_I)) 10000"
  define tp where "tp = trim_percent s - adj"
  define tv where "tv = (ucast (long_div tp 100) :: u16) + 0x8000"
  have sd: "sint drift = exact_drift s"
    unfolding drift_def by (rule window_drift(1) [OF le])
  have db: "\<bar>exact_drift s\<bar> \<le> 327680"
    using buffer_sum_bound [OF le] window_drift(2) [OF le] by simp
  \<comment> \<open>the combined error\<close>
  have fq: "fits_int (sint spe sdiv 14)"
    by (rule fits_int_sdiv [OF _ fits_int_sint]) simp
  have sq: "sint (int_div spe 14) = sint spe sdiv 14"
    using sint_int_div [of spe 14] fq by (simp only: sint_numerals)
  have sph: "sint ph = sint spe sdiv 14"
    unfolding ph_def by (simp only: sint_scast_up sq)
  have f10: "fits_long (10 * exact_drift s)" using db unfolding fits_long_def by linarith
  have s10: "sint (10 * drift) = 10 * exact_drift s"
    using sint_mult_long [of 10 drift] f10 by (simp only: sd sint_numerals)
  have eb: "\<bar>exact_error s\<bar> \<le> 3310000" by (rule exact_error_bound [OF le])
  have fe: "fits_long (exact_error s)" using eb unfolding fits_long_def by linarith
  have ee: "exact_error s = 10 * exact_drift s + sint spe sdiv 14"
    by (simp only: exact_error_def spe_def)
  have sc: "sint cur = exact_error s"
    unfolding cur_def
    using sint_add_long [of "10 * drift" ph] fe by (simp only: s10 sph ee)
  \<comment> \<open>the integrator\<close>
  from no have n1: "fits_long (exact_total s)"
    and n2: "fits_long (exact_error s * 31400)"
    and n3: "fits_long (exact_total s * 13)"
    and n4: "fits_long (exact_error s * 31400 + exact_total s * 13)"
    and n5: "fits_long (- 1 * (exact_error s * 31400 + exact_total s * 13))"
    and n6: "fits_long (exact_trim s)"
    by (simp_all only: no_overflow_def)
  have ste: "sint te = exact_total s"
    unfolding te_def
    using sint_add_long [of "total_error s" cur] n1 by (simp only: sc exact_total_def)
  \<comment> \<open>the adjustment\<close>
  have sp: "sint (cur * K_P) = exact_error s * 31400"
    using sint_mult_long [of cur K_P] n2 by (simp only: sc sint_numerals)
  have si: "sint (te * K_I) = exact_total s * 13"
    using sint_mult_long [of te K_I] n3 by (simp only: ste sint_numerals)
  have sx: "sint (cur * K_P + te * K_I) = exact_error s * 31400 + exact_total s * 13"
    using sint_add_long [of "cur * K_P" "te * K_I"] n4 by (simp only: sp si)
  have sn: "sint (DAC_SIGN * (cur * K_P + te * K_I)) =
              - 1 * (exact_error s * 31400 + exact_total s * 13)"
    using sint_mult_long [of DAC_SIGN "cur * K_P + te * K_I"] n5 by (simp only: sx sint_numerals)
  have fa: "fits_long (exact_adj s)"
    unfolding exact_adj_def by (rule fits_long_sdiv [OF _ n5]) simp
  have sa: "sint adj = exact_adj s"
    unfolding adj_def
    using sint_long_div [of "DAC_SIGN * (cur * K_P + te * K_I)" 10000] fa
    by (simp only: sn sint_numerals exact_adj_def)
  \<comment> \<open>the trim and the DAC word\<close>
  have stp: "sint tp = exact_trim s"
    unfolding tp_def
    using sint_sub_long [of "trim_percent s" adj] n6 by (simp only: sa exact_trim_def)
  have ld: "long_div tp 100 = word_of_int (exact_trim s sdiv 100)"
    unfolding long_div_def by (simp only: stp sint_numerals)
  have uc: "(ucast (word_of_int (exact_trim s sdiv 100) :: u32) :: u16) =
              word_of_int (exact_trim s sdiv 100)"
    by (rule ucast_down_wi) (simp add: is_down)
  have stv: "tv = word_of_int (exact_dac s)"
    unfolding tv_def ld uc exact_dac_def by simp
  \<comment> \<open>the update itself\<close>
  have w: "fst (window_update s) =
             Updated \<lparr>sample_phase_error = spe, sample_drift = drift, current_error = cur,
                      adj_val = adj, trim_value = tv\<rparr>"
    and ws: "total_error (snd (window_update s)) = te"
            "trim_percent (snd (window_update s)) = tp"
            "last_dac_value (snd (window_update s)) = tv"
    using pos
    by (simp_all add: window_update_def Let_def writeDacValue_def spe_def drift_def ph_def
        cur_def te_def adj_def tp_def tv_def)
  obtain r s' where p: "window_update s = (r, s')" by (cases "window_update s")
  from w ws p sd sc ste sa stp stv show ?thesis
    by (simp add: spe_def)
qed

lemma fast_by_60_fields:
  "valid_samples fast_by_60 = 2" "sample_buffer fast_by_60 = [100, - 40, 0, 0, 0, 0, 0, 0, 0, 0]"
  "phase_error_sum fast_by_60 = 312" "total_error fast_by_60 = 0" "trim_percent fast_by_60 = 0"
  by (simp_all add: fast_by_60_def boot_defs)

lemma phase_312: "phase_error_sum s = 312 \<Longrightarrow> sint (window_phase_error s) = 23"
  by (simp add: window_phase_error_def Let_def long_div_def SAMPLE_SECONDS_def
      signed_divide_int_def)

lemma fast_by_60_exact:
  "buffer_sum fast_by_60 = 60" "exact_drift fast_by_60 = 60" "exact_error fast_by_60 = 601"
  "exact_total fast_by_60 = 601" "exact_adj fast_by_60 = - 1887" "exact_trim fast_by_60 = 1887"
  "exact_dac fast_by_60 = 32786"
proof -
  show b: "buffer_sum fast_by_60 = 60"
    by (simp add: buffer_sum_def fast_by_60_fields)
  show d: "exact_drift fast_by_60 = 60"
    by (simp add: exact_drift_def b signed_divide_int_def)
  show e: "exact_error fast_by_60 = 601"
    by (simp add: exact_error_def d phase_312 fast_by_60_fields signed_divide_int_def)
  show t: "exact_total fast_by_60 = 601"
    by (simp add: exact_total_def e fast_by_60_fields)
  show a: "exact_adj fast_by_60 = - 1887"
    by (simp add: exact_adj_def e t signed_divide_int_def)
  show p: "exact_trim fast_by_60 = 1887"
    by (simp add: exact_trim_def a fast_by_60_fields)
  show "exact_dac fast_by_60 = 32786"
    by (simp add: exact_dac_def p signed_divide_int_def)
qed

theorem window_update_controller_witness:
  "no_overflow fast_by_60 \<and>
   (case window_update fast_by_60 of
      (Updated l, s') \<Rightarrow>
         sint (sample_drift l) = 60 \<and> sint (current_error l) = 601 \<and>
         sint (total_error s') = 601 \<and> sint (adj_val l) = - 1887 \<and>
         sint (trim_percent s') = 1887 \<and> trim_value l = 32786 \<and> last_dac_value s' = 32786
    | _ \<Rightarrow> False)"
proof -
  have pos: "0 < sint (valid_samples fast_by_60)" and le: "sint (valid_samples fast_by_60) \<le> 10"
    by (simp_all add: fast_by_60_fields)
  have no: "no_overflow fast_by_60"
    by (simp add: no_overflow_def fast_by_60_exact fits_long_def)
  obtain r s' where p: "window_update fast_by_60 = (r, s')" by (cases "window_update fast_by_60")
  from window_update_controller [OF pos le no] p have
    "case r of Updated l \<Rightarrow>
         sint (sample_drift l) = 60 \<and> sint (current_error l) = 601 \<and>
         sint (total_error s') = 601 \<and> sint (adj_val l) = - 1887 \<and>
         sint (trim_percent s') = 1887 \<and> trim_value l = 32786 \<and> last_dac_value s' = 32786
     | _ \<Rightarrow> False"
    by (cases r) (simp_all add: fast_by_60_exact)
  with no p show ?thesis by simp
qed

text \<open>
  The claim as stated has the floor of \<open>trim_percent / 100\<close>. In the run below the first
  sample is \<open>-100\<close>: the update makes \<open>current_error = total_error = -1000\<close> and
  \<open>adj = 3141\<close>, and leaves \<open>trim_percent\<close> at \<open>-3141\<close>. The word written to the DAC is
  \<open>-31 + 0x8000 = 32737\<close>, and the floor would give 32736.
\<close>

lemma slow_sample_run: "run slow_sample_events (main_init 0x8000) = after_slow_sample"
proof -
  have "run slow_sample_events (main_init 0x8000) =
      run (window_of 167 0x649C) (run (window_of 166 0xB280) (handleGPS True (main_init 0x8000)))"
    unfolding slow_sample_events_def by (simp only: run.simps step.simps run_append)
  also have "\<dots> = after_slow_sample"
    unfolding warm_up_run after_warm_up_def after_slow_sample_def
    by (simp add: edge_defs) (simp add: update_defs)
  finally show ?thesis .
qed

theorem trim_truncated_counterexample:
  "run slow_sample_events (main_init 0x8000) = after_slow_sample \<and>
   sint (trim_percent after_slow_sample) = - 3141 \<and>
   last_dac_value after_slow_sample = 32737 \<and>
   dac_log after_slow_sample = [32737] \<and>
   (word_of_int (sint (trim_percent after_slow_sample) div 100 + 0x8000) :: u16) = 32736"
proof -
  have "sint (trim_percent after_slow_sample) = - 3141"
    "last_dac_value after_slow_sample = 32737"
    "dac_log after_slow_sample = [32737]"
    "(word_of_int (sint (trim_percent after_slow_sample) div 100 + 0x8000) :: u16) = 32736"
    by (simp_all add: after_slow_sample_def)
  with slow_sample_run show ?thesis by simp
qed

section \<open>The phase sampler\<close>

lemma main_loop_body_window:
  assumes "last_pps_count s \<noteq> pps_count s" "erroneous_delta s = 0"
    "last_sample_count s \<noteq> sample_count s"
  shows "main_loop_body s =
     window_update (s\<lparr>gps_status := gps_status s OR 2, last_pps_count := pps_count s,
        phase_error_sum := phase_error_sum s + scast (PHASE_ADC_MIDPOINT - last_adc_value s),
        phase_error_count := phase_error_count s + 1,
        last_sample_count := sample_count s\<rparr>)"
  using assms by (simp add: main_loop_body_def Let_def)

lemma window_update_phase:
  "reported_phase_error (fst (window_update s)) = Some (window_phase_error s)"
  "phase_error_sum (snd (window_update s)) = 0"
  "phase_error_count (snd (window_update s)) = 0"
  by (simp_all add: window_update_def Let_def writeDacValue_def)

lemma sint_phase_reading:
  assumes "adc \<le> 1023"
  shows "sint (PHASE_ADC_MIDPOINT - adc) = 512 - uint adc"
proof -
  have u: "uint adc \<le> 1023" using assms by (simp add: word_le_def)
  have p: "0 \<le> uint adc" by simp
  have f: "fits_int (uint adc)" using u p unfolding fits_int_def by linarith
  have "adc = word_of_int (uint adc)" by simp
  then have "sint adc = sint (word_of_int (uint adc) :: u16)" by simp
  also have "\<dots> = uint adc" by (rule sint_wi_int [OF f])
  finally have a: "sint adc = uint adc" .
  have "- 32768 \<le> 512 - uint adc" "512 - uint adc < 32768" using u p by linarith+
  then show ?thesis
    by (simp add: PHASE_ADC_MIDPOINT_def sint_word_diff a signed_take_bit_int_eq_self)
qed

lemma sint_phase_sum:
  assumes "adc \<le> 1023" and "fits_long (exact_phase_sum s adc)"
  shows "sint (phase_error_sum s + scast (PHASE_ADC_MIDPOINT - adc)) = exact_phase_sum s adc"
proof -
  have "sint (scast (PHASE_ADC_MIDPOINT - adc) :: u32) = 512 - uint adc"
    by (simp only: sint_scast_up sint_phase_reading [OF assms(1)])
  then show ?thesis
    using sint_add_long [of "phase_error_sum s" "scast (PHASE_ADC_MIDPOINT - adc)"] assms(2)
    by (simp only: exact_phase_sum_def)
qed

lemma sint_window_phase_error:
  assumes "fits_long ((sint (phase_error_sum s) sdiv 25) * 1000)"
    and "fits_int (exact_phase_error (sint (phase_error_sum s)))"
  shows "sint (window_phase_error s) = exact_phase_error (sint (phase_error_sum s))"
proof -
  let ?avg = "long_div (phase_error_sum s) 25"
  have f1: "fits_long (sint (phase_error_sum s) sdiv 25)"
    by (rule fits_long_sdiv [OF _ fits_long_sint]) simp
  have a: "sint ?avg = sint (phase_error_sum s) sdiv 25"
    using sint_long_div [of "phase_error_sum s" 25] f1 by (simp only: sint_numerals)
  have m: "sint (?avg * 1000) = (sint (phase_error_sum s) sdiv 25) * 1000"
    using sint_mult_long [of ?avg 1000] assms(1) by (simp only: a sint_numerals)
  have f2: "fits_long (exact_phase_error (sint (phase_error_sum s)))"
    using assms(2) unfolding fits_long_def fits_int_def by linarith
  have d: "sint (long_div (?avg * 1000) 512) = exact_phase_error (sint (phase_error_sum s))"
    using sint_long_div [of "?avg * 1000" 512] f2
    by (simp only: m sint_numerals exact_phase_error_def)
  have "fits_int (sint (long_div (?avg * 1000) 512))" by (simp only: d assms(2))
  from sint_ucast_down [OF this] show ?thesis
    by (simp only: window_phase_error_def Let_def sint_numerals d)
qed

lemma window_phase_error_cong:
  "phase_error_sum t = phase_error_sum s \<Longrightarrow> window_phase_error t = window_phase_error s"
  by (simp add: window_phase_error_def)

lemma rejects_nonzero: "rejects hw s \<Longrightarrow> window_delta hw s \<noteq> 0"
  by (auto simp: rejects_def abs_int_def MAX_DELTA_def)

lemma store_sample_frame:
  "pps_count (store_sample d s) = pps_count s"
  "last_pps_count (store_sample d s) = last_pps_count s"
  "erroneous_delta (store_sample d s) = erroneous_delta s"
  "last_sample_count (store_sample d s) = last_sample_count s"
  "last_adc_value (store_sample d s) = last_adc_value s"
  "phase_error_sum (store_sample d s) = phase_error_sum s"
  "phase_error_count (store_sample d s) = phase_error_count s"
  by (simp_all add: store_sample_def)

text \<open>
  Claim C5, as the code has it. A PPS edge arrives while locked, the main loop having
  seen every earlier edge, and the main loop then runs once; the ADC reading has 10
  bits and the accumulator does not overflow.

  If the edge does not close a window, the main loop adds 512 minus the reading to
  \<open>phase_error_sum\<close>, increments \<open>phase_error_count\<close> and leaves at line 611. If the edge
  closes a window and the delta is not rejected, the main loop adds the reading in the
  same way, computes \<open>sample_phase_error\<close> as \<open>(phase_error_sum / 25) * 1000 / 512\<close>
  (every \<^verbatim>\<open>/\<close> truncating; the statement is for a result that fits the 16-bit \<^verbatim>\<open>int\<close>)
  and zeroes both \<open>phase_error_sum\<close> and \<open>phase_error_count\<close>. If the edge closes a
  window whose delta is rejected, the main loop leaves at line 593: the reading is not
  added, no phase error is computed and the accumulator is not zeroed.
\<close>

theorem phase_accumulator:
  assumes locked: "gps_status s AND 1 = 1"
    and seen: "last_pps_count s = pps_count s" "last_sample_count s = sample_count s"
      "erroneous_delta s = 0"
    and adc: "ADC hw \<le> 1023"
    and fits: "fits_long (exact_phase_sum s (ADC hw))"
  shows
   "(let ps = exact_phase_sum s (ADC hw);
         r = main_loop_body (TIMER1_CAPT_vect hw s)
     in (sample_window_pos s \<noteq> 1 \<longrightarrow>
           fst r = SampleIncomplete \<and>
           sint (phase_error_sum (snd r)) = ps \<and>
           phase_error_count (snd r) = phase_error_count s + 1) \<and>
        (sample_window_pos s = 1 \<and> rejects hw s \<longrightarrow>
           fst r = Erroneous (window_delta hw s) \<and>
           phase_error_sum (snd r) = phase_error_sum s \<and>
           phase_error_count (snd r) = phase_error_count s) \<and>
        (sample_window_pos s = 1 \<and> \<not> rejects hw s \<and>
         fits_long ((ps sdiv 25) * 1000) \<and> fits_int (exact_phase_error ps) \<longrightarrow>
           map_option sint (reported_phase_error (fst r)) = Some (exact_phase_error ps) \<and>
           phase_error_sum (snd r) = 0 \<and>
           phase_error_count (snd r) = 0))"
proof -
  define ps where "ps = exact_phase_sum s (ADC hw)"
  define r where "r = main_loop_body (TIMER1_CAPT_vect hw s)"
  have ne: "pps_count s + 1 \<noteq> pps_count s" "sample_count s + 1 \<noteq> sample_count s"
    by simp_all
  note sum = sint_phase_sum [OF adc fits, folded ps_def]
  have opn: "fst r = SampleIncomplete \<and> sint (phase_error_sum (snd r)) = ps \<and>
           phase_error_count (snd r) = phase_error_count s + 1"
    if "sample_window_pos s \<noteq> 1"
    unfolding r_def capt_open [OF locked that]
    using seen ne sum by (simp add: main_loop_body_def Let_def)
  have rej: "fst r = Erroneous (window_delta hw s) \<and>
           phase_error_sum (snd r) = phase_error_sum s \<and>
           phase_error_count (snd r) = phase_error_count s"
    if c: "sample_window_pos s = 1" and j: "rejects hw s"
  proof -
    have "TIMER1_CAPT_vect hw s =
       s\<lparr>last_adc_value := ADC hw, pps_count := pps_count s + 1, sample_window_pos := 25,
            last_timer_val := capture_tick (ICR1 hw) (TOV1 hw) (timer_hibits s),
            erroneous_delta := window_delta hw s\<rparr>"
      using j by (simp add: capt_close [OF locked c] rejects_def)
    then show ?thesis
      unfolding r_def using seen ne rejects_nonzero [OF j]
      by (simp add: main_loop_body_def Let_def)
  qed
  have acc: "map_option sint (reported_phase_error (fst r)) = Some (exact_phase_error ps) \<and>
           phase_error_sum (snd r) = 0 \<and> phase_error_count (snd r) = 0"
    if c: "sample_window_pos s = 1" and j: "\<not> rejects hw s"
      and f1: "fits_long ((ps sdiv 25) * 1000)" and f2: "fits_int (exact_phase_error ps)"
  proof -
    define s1 where "s1 = TIMER1_CAPT_vect hw s"
    have e: "s1 =
       (store_sample (window_delta hw s)
            (s\<lparr>last_adc_value := ADC hw, pps_count := pps_count s + 1,
               sample_window_pos := 25,
               last_timer_val := capture_tick (ICR1 hw) (TOV1 hw) (timer_hibits s)\<rparr>))
          \<lparr>sample_count := sample_count s + 1\<rparr>"
    proof -
      have "\<not> (MAX_DELTA < sint (abs_int (ucast (window_delta hw s))) \<and>
                0 \<le> sint (valid_samples s))"
        using j unfolding rejects_def .
      then show ?thesis
        unfolding s1_def by (simp only: capt_close [OF locked c] if_False)
    qed
    have fl: "last_pps_count s1 \<noteq> pps_count s1" "erroneous_delta s1 = 0"
      "last_sample_count s1 \<noteq> sample_count s1" "last_adc_value s1 = ADC hw"
      "phase_error_sum s1 = phase_error_sum s" "phase_error_count s1 = phase_error_count s"
      using seen ne by (simp_all add: e store_sample_frame)
    define t where "t = s1\<lparr>gps_status := gps_status s1 OR 2, last_pps_count := pps_count s1,
        phase_error_sum := phase_error_sum s1 + scast (PHASE_ADC_MIDPOINT - last_adc_value s1),
        phase_error_count := phase_error_count s1 + 1,
        last_sample_count := sample_count s1\<rparr>"
    have rw: "r = window_update t"
      unfolding r_def s1_def [symmetric] t_def by (rule main_loop_body_window [OF fl(1,2,3)])
    have pt: "phase_error_sum t = phase_error_sum s + scast (PHASE_ADC_MIDPOINT - ADC hw)"
      by (simp add: t_def fl)
    have st: "sint (phase_error_sum t) = ps" unfolding pt by (rule sum)
    have "sint (window_phase_error t) = exact_phase_error ps"
      using sint_window_phase_error [of t] f1 f2 by (simp only: st)
    then show ?thesis
      unfolding rw by (simp add: window_update_phase)
  qed
  from opn rej acc show ?thesis
    unfolding Let_def ps_def [symmetric] r_def [symmetric] by blast
qed

lemma mid_window_fields:
  "gps_status mid_window = 1" "sample_window_pos mid_window = 5"
  "last_pps_count mid_window = pps_count mid_window"
  "last_sample_count mid_window = sample_count mid_window"
  "erroneous_delta mid_window = 0" "phase_error_sum mid_window = 100"
  "phase_error_count mid_window = 20"
  by (simp_all add: mid_window_def window_closing_def boot_defs)

lemma end_of_window_fields:
  "gps_status end_of_window = 1" "sample_window_pos end_of_window = 1"
  "last_pps_count end_of_window = pps_count end_of_window"
  "last_sample_count end_of_window = sample_count end_of_window"
  "erroneous_delta end_of_window = 0" "phase_error_sum end_of_window = 100"
  "phase_error_count end_of_window = 24" "valid_samples end_of_window = 0"
  "timer_hibits end_of_window = 0x0EE6" "last_timer_val end_of_window = 0"
  by (simp_all add: end_of_window_def window_closing_def boot_defs)

lemma end_of_window_delta:
  "window_delta \<lparr>ICR1 = 0xB28B, TOV1 = False, ADC = 500\<rparr> end_of_window = 11"
  by (simp_all add: window_delta_def capture_tick_def end_of_window_fields
      SAMPLE_SECONDS_def NOMINAL_CLOCK_def)

lemma end_of_window_rejects:
  "\<not> rejects \<lparr>ICR1 = 0xB28B, TOV1 = False, ADC = 500\<rparr> end_of_window"
  by (simp_all add: rejects_def end_of_window_delta end_of_window_fields abs_int_def MAX_DELTA_def)

lemma phase_sum_112:
  "exact_phase_sum mid_window 500 = 112" "exact_phase_sum end_of_window 500 = 112"
  "exact_phase_error 112 = 7"
  by (simp_all add: exact_phase_sum_def exact_phase_error_def mid_window_fields
      end_of_window_fields signed_divide_int_def)

theorem phase_accumulator_witness:
  "fst (main_loop_body (TIMER1_CAPT_vect \<lparr>ICR1 = 0x1234, TOV1 = False, ADC = 500\<rparr> mid_window)) =
     SampleIncomplete \<and>
   sint (phase_error_sum (snd (main_loop_body
     (TIMER1_CAPT_vect \<lparr>ICR1 = 0x1234, TOV1 = False, ADC = 500\<rparr> mid_window)))) = 112 \<and>
   phase_error_count (snd (main_loop_body
     (TIMER1_CAPT_vect \<lparr>ICR1 = 0x1234, TOV1 = False, ADC = 500\<rparr> mid_window))) = 21 \<and>
   map_option sint (reported_phase_error (fst (main_loop_body
     (TIMER1_CAPT_vect \<lparr>ICR1 = 0xB28B, TOV1 = False, ADC = 500\<rparr> end_of_window)))) = Some 7 \<and>
   phase_error_sum (snd (main_loop_body
     (TIMER1_CAPT_vect \<lparr>ICR1 = 0xB28B, TOV1 = False, ADC = 500\<rparr> end_of_window))) = 0 \<and>
   phase_error_count (snd (main_loop_body
     (TIMER1_CAPT_vect \<lparr>ICR1 = 0xB28B, TOV1 = False, ADC = 500\<rparr> end_of_window))) = 0"
proof -
  let ?m = "\<lparr>ICR1 = 0x1234, TOV1 = False, ADC = 500\<rparr>"
  let ?e = "\<lparr>ICR1 = 0xB28B, TOV1 = False, ADC = 500\<rparr>"
  have ml: "gps_status mid_window AND 1 = 1" and el: "gps_status end_of_window AND 1 = 1"
    by (simp_all add: mid_window_fields end_of_window_fields)
  have adc: "ADC ?m \<le> 1023" "ADC ?e \<le> 1023" by simp_all
  have mf: "fits_long (exact_phase_sum mid_window (ADC ?m))"
    and ef: "fits_long (exact_phase_sum end_of_window (ADC ?e))"
    by (simp_all add: phase_sum_112 fits_long_def)
  note tm = phase_accumulator [OF ml mid_window_fields(3,4,5) adc(1) mf, unfolded Let_def,
      THEN conjunct1, THEN mp]
  note te = phase_accumulator [OF el end_of_window_fields(3,4,5) adc(2) ef, unfolded Let_def,
      THEN conjunct2, THEN conjunct2, THEN mp]
  have a: "sample_window_pos mid_window \<noteq> 1" by (simp add: mid_window_fields)
  have b: "sample_window_pos end_of_window = 1 \<and> \<not> rejects ?e end_of_window \<and>
     fits_long ((exact_phase_sum end_of_window (ADC ?e) sdiv 25) * 1000) \<and>
     fits_int (exact_phase_error (exact_phase_sum end_of_window (ADC ?e)))"
    by (simp add: end_of_window_fields end_of_window_rejects phase_sum_112 fits_long_def
        fits_int_def signed_divide_int_def)
  from tm [OF a] te [OF b] show ?thesis
    by (simp add: phase_sum_112 mid_window_fields)
qed

text \<open>
  The claim as stated fails at the edge that closes a rejected window. In the run below
  the 24 readings of 508 have brought \<open>phase_error_sum\<close> to 96, and the window closes
  with a delta of 3000 and a reading of 500. The main loop reports the delta and goes
  back to the top: \<open>phase_error_sum\<close> stays 96 (not 108, and not 0),
  \<open>phase_error_count\<close> stays 24, and no phase error is computed.
\<close>

lemma rejected_window_run:
  "run rejected_window_events (main_init 0x8000) = rejected_window_closed"
proof -
  have "run rejected_window_events (main_init 0x8000) =
      run [Capture \<lparr>ICR1 = 0x70B8, TOV1 = False, ADC = 500\<rparr>]
       (run (replicate 167 Overflow)
        (run (concat (replicate 24
           (replicate 152 Overflow @ [Capture \<lparr>ICR1 = 0, TOV1 = False, ADC = 508\<rparr>, Loop])))
         (run (window_of 166 0xB280) (handleGPS True (main_init 0x8000)))))"
    unfolding rejected_window_events_def by (simp only: run.simps step.simps run_append)
  also have "\<dots> = rejected_window_closed"
    unfolding warm_up_run after_warm_up_def rejected_window_closed_def
    by (simp add: run_append run_overflows edge_defs)
  finally show ?thesis .
qed

theorem rejected_window_phase_counterexample:
  "run rejected_window_events (main_init 0x8000) = rejected_window_closed \<and>
   gps_status rejected_window_closed AND 1 = 1 \<and>
   last_adc_value rejected_window_closed = 500 \<and>
   phase_error_sum rejected_window_closed = 96 \<and>
   phase_error_count rejected_window_closed = 24 \<and>
   fst (main_loop_body rejected_window_closed) = Erroneous 3000 \<and>
   reported_phase_error (fst (main_loop_body rejected_window_closed)) = None \<and>
   phase_error_sum (snd (main_loop_body rejected_window_closed)) = 96 \<and>
   phase_error_count (snd (main_loop_body rejected_window_closed)) = 24"
proof -
  have "gps_status rejected_window_closed AND 1 = 1"
    "last_adc_value rejected_window_closed = 500"
    "phase_error_sum rejected_window_closed = 96"
    "phase_error_count rejected_window_closed = 24"
    by (simp_all add: rejected_window_closed_def)
  moreover have "main_loop_body rejected_window_closed =
      (Erroneous 3000, rejected_window_closed\<lparr>last_pps_count := 50, erroneous_delta := 0\<rparr>)"
    by (simp add: rejected_window_closed_def main_loop_body_def Let_def)
  ultimately show ?thesis using rejected_window_run
    by (simp add: rejected_window_closed_def)
qed

section \<open>The EEPROM write gate\<close>

lemma first_sample_run: "run (window_of 167 0x6EC4) after_warm_up = after_first_sample"
  unfolding after_warm_up_def after_first_sample_def
  by (simp add: edge_defs) (simp add: update_defs)

lemma second_sample_run: "run (window_of 167 0x2B08) after_first_sample = after_second_sample"
  unfolding after_first_sample_def after_second_sample_def
  by (simp add: edge_defs) (simp add: update_defs)

lemma third_sample_run:
  "run (concat (replicate 24 (second_of 152 0)) @ edge_of 166 0xE39A) after_second_sample = far_off"
  unfolding after_second_sample_def far_off_def run_append
  by (simp add: edge_defs)

lemma far_off_reached: "run far_off_events (main_init 0x8000) = far_off"
proof -
  have "run far_off_events (main_init 0x8000) =
      run (concat (replicate 24 (second_of 152 0)) @ edge_of 166 0xE39A)
        (run (window_of 167 0x2B08)
          (run (window_of 167 0x6EC4)
            (run (window_of 166 0xB280) (handleGPS True (main_init 0x8000)))))"
    unfolding far_off_events_def by (simp only: run.simps step.simps run_append)
  then show ?thesis
    by (simp only: warm_up_run first_sample_run second_sample_run third_sample_run)
qed

text \<open>
  Claim C6 fails on the code. The run \<open>far_off_events\<close> ends in \<open>far_off\<close>: the oscillator
  has been 2500, 2500 and 1554 ticks fast over three windows. The main loop iteration
  that follows computes \<open>current_error = 65540\<close>, far from the \<open>|current_error| < 100\<close>
  of the claim and of the comment of line 716. Line 718 passes that \<^verbatim>\<open>long\<close> to
  avr-libc's \<^verbatim>\<open>abs\<close>, which takes a 16-bit \<^verbatim>\<open>int\<close>: it sees 4, the test succeeds,
  and since the stored word \<open>0x8000\<close> differs from the new DAC word 37184 by more than
  75, the EEPROM is written.
\<close>

theorem eeprom_written_far_off:
  "run far_off_events (main_init 0x8000) = far_off \<and>
   eeprom_trim far_off = 32768 \<and>
   (case main_loop_body far_off of
      (Updated l, s') \<Rightarrow>
         sint (current_error l) = 65540 \<and> trim_value l = 37184 \<and> eeprom_trim s' = 37184
    | _ \<Rightarrow> False)"
proof -
  have "eeprom_trim far_off = 32768" by (simp add: far_off_def)
  moreover have "case main_loop_body far_off of
      (Updated l, s') \<Rightarrow>
         sint (current_error l) = 65540 \<and> trim_value l = 37184 \<and> eeprom_trim s' = 37184
    | _ \<Rightarrow> False"
    unfolding far_off_def
    by (simp add: main_loop_body_def Let_def PHASE_ADC_MIDPOINT_def) (simp add: update_defs)
  ultimately show ?thesis using far_off_reached by simp
qed

end
